theory Spec2Isabelle
  imports Main "HOL-Library.Sublist"
begin

section \<open>JavaScript values as the program sees them\<close>

text \<open>
  A string is a list of characters, a character standing for a code unit below 256
  (code units beyond are outside the model). \<open>trim\<close> removes white space and line
  terminators at both ends: tab, line feed, vertical tab, form feed, carriage return,
  space and the no-break space. \<open>s.slice(0, n)\<close> is \<open>take n s\<close>, and \<open>s.includes(t)\<close>
  asks whether \<open>t\<close> occurs in \<open>s\<close> as a contiguous block.
\<close>

definition is_js_space :: "char \<Rightarrow> bool" where
  "is_js_space c =
     (c \<in> set [CHR 0x09, CHR 0x0A, CHR 0x0B, CHR 0x0C, CHR 0x0D, CHR '' '', CHR 0xA0])"

definition trim :: "string \<Rightarrow> string" where
  "trim s = rev (dropWhile is_js_space (rev (dropWhile is_js_space s)))"

fun js_includes :: "string \<Rightarrow> string \<Rightarrow> bool" where
  "js_includes [] sub = (sub = [])"
| "js_includes (c # cs) sub = (prefix sub (c # cs) \<or> js_includes cs sub)"

text \<open>\<open>toLowerCase\<close>: the letters A to Z, and the capital letters of Latin-1 (0xC0 to
  0xDE, without the multiplication sign 0xD7), move up by 32.\<close>

definition toLower_char :: "char \<Rightarrow> char" where
  "toLower_char c =
     (let n = (of_char c :: nat)
      in if (65 \<le> n \<and> n \<le> 90) \<or> (192 \<le> n \<and> n \<le> 222 \<and> n \<noteq> 215)
         then char_of (n + 32) else c)"

definition toLowerCase :: "string \<Rightarrow> string" where
  "toLowerCase s = map toLower_char s"

text \<open>The decimal rendering of a natural number, as a template literal prints it.\<close>

fun digits :: "nat \<Rightarrow> string" where
  "digits n =
     (if n < 10 then [char_of (48 + n)] else digits (n div 10) @ [char_of (48 + n mod 10)])"

definition join :: "string \<Rightarrow> string list \<Rightarrow> string" where
  "join sep xs = (case xs of [] \<Rightarrow> [] | x # rest \<Rightarrow> foldl (\<lambda>a b. a @ sep @ b) x rest)"

text \<open>
  A parsed JSON value. A number is kept as its JavaScript rendering \<open>String(n)\<close>, which
  is all this program observes of a number (it is falsy exactly when that rendering is
  \<open>0\<close>). An object is the list of its own properties, in order, no name twice. The
  JavaScript value \<open>undefined\<close> is \<open>None\<close> of \<open>json option\<close>.
\<close>

datatype json =
    JNull
  | JBool bool
  | JNum string
  | JStr string
  | JArr "json list"
  | JObj "(string \<times> json) list"

text \<open>\<open>v.k\<close> for a value that is neither \<open>null\<close> nor \<open>undefined\<close> and a property
  name that no prototype defines; \<open>v[i]\<close> likewise.\<close>

fun get_prop :: "json \<Rightarrow> string \<Rightarrow> json option" where
  "get_prop (JObj kvs) k = map_of kvs k"
| "get_prop _ k = None"

fun get_index :: "json \<Rightarrow> nat \<Rightarrow> json option" where
  "get_index (JArr xs) i = (if i < length xs then Some (xs ! i) else None)"
| "get_index (JStr s) i = (if i < length s then Some (JStr [s ! i]) else None)"
| "get_index (JObj kvs) i = map_of kvs (digits i)"
| "get_index _ i = None"

text \<open>Optional chaining: \<open>v?.k\<close> and \<open>v?.[i]\<close>.\<close>

definition opt_prop :: "json option \<Rightarrow> string \<Rightarrow> json option" where
  "opt_prop v k = (case v of None \<Rightarrow> None | Some JNull \<Rightarrow> None | Some j \<Rightarrow> get_prop j k)"

definition opt_index :: "json option \<Rightarrow> nat \<Rightarrow> json option" where
  "opt_index v i = (case v of None \<Rightarrow> None | Some JNull \<Rightarrow> None | Some j \<Rightarrow> get_index j i)"

fun truthy :: "json option \<Rightarrow> bool" where
  "truthy None = False"
| "truthy (Some JNull) = False"
| "truthy (Some (JBool b)) = b"
| "truthy (Some (JNum n)) = (n \<noteq> ''0'')"
| "truthy (Some (JStr s)) = (s \<noteq> [])"
| "truthy (Some (JArr xs)) = True"
| "truthy (Some (JObj kvs)) = True"

definition js_or :: "json option \<Rightarrow> json option \<Rightarrow> json option" where
  "js_or a b = (if truthy a then a else b)"

text \<open>\<open>String(v)\<close>, also what a template literal and the \<open>Error\<close> constructor apply.\<close>

fun String_json :: "json \<Rightarrow> string" where
  "String_json JNull = ''null''"
| "String_json (JBool b) = (if b then ''true'' else ''false'')"
| "String_json (JNum n) = n"
| "String_json (JStr s) = s"
| "String_json (JArr xs) =
     join '','' (map (\<lambda>x. if x = JNull then [] else String_json x) xs)"
| "String_json (JObj kvs) = ''[object Object]''"

definition js_String :: "json option \<Rightarrow> string" where
  "js_String v = (case v of None \<Rightarrow> ''undefined'' | Some j \<Rightarrow> String_json j)"

section \<open>types/chat.ts\<close>

datatype MessageRole = user | assistant | system

record Message =
  message_id :: string
  role :: MessageRole
  content :: string
  timestamp :: string
  isError :: "bool option"

record Session =
  session_id :: string
  title :: string
  messages :: "Message list"
  createdAt :: string
  updatedAt :: string
  starred :: "bool option"

text \<open>
  The three shapes of \<open>OpenAIMessage\<close>. The tool-call list and the tool-call id come
  from the provider's response and are carried as the JSON they are.
\<close>

datatype OpenAIMessage =
    ChatMsg MessageRole string
  | AssistantToolCalls "json option"
  | ToolResult string "json option"

datatype ChatStatus = idle | thinking | searching

section \<open>services/tavily.ts and services/openai.ts: the environment\<close>

text \<open>
  What a \<open>throw\<close> carries: an \<open>OpenAIError\<close> (message, status code, code), any other
  \<open>Error\<close> (its message), or a value that is no \<open>Error\<close> (its \<open>String\<close> rendering).
\<close>

datatype thrown =
    OpenAIError string "nat option" "json option"
  | JsError string
  | NonError string

text \<open>\<open>err instanceof Error ? err.message : String(err)\<close>\<close>

fun thrown_message :: "thrown \<Rightarrow> string" where
  "thrown_message (OpenAIError m s c) = m"
| "thrown_message (JsError m) = m"
| "thrown_message (NonError s) = s"

text \<open>
  An HTTP response: its status and what \<open>response.json()\<close> gives (the parsed body, or the
  error it rejects with). \<open>response.ok\<close> is the status being in 200..299.
\<close>

record Response =
  status :: nat
  json_body :: "thrown + json"

definition ok :: "Response \<Rightarrow> bool" where
  "ok r = (200 \<le> status r \<and> status r \<le> 299)"

datatype fetch_result = Rejected thrown | Resolved Response

text \<open>
  The request \<open>doFetch\<close> posts to the completion endpoint: the bearer key, the message
  list, and whether the \<open>web_search\<close> tool is declared (with \<open>tool_choice: auto\<close>).
  Model, temperature, token cap and \<open>stream: false\<close> are constants of every request.
\<close>

record CompletionRequest =
  req_apiKey :: string
  req_messages :: "OpenAIMessage list"
  req_tools :: bool

text \<open>The request \<open>searchWeb\<close> posts: the key and the query (depth, result cap and
  the answer flag are constants).\<close>

record SearchRequest =
  search_api_key :: string
  search_query :: "json option"

text \<open>
  The environment of one send: the two configured keys, the date string of the system
  prompt, the two endpoints (what \<open>fetch\<close> resolves or rejects with for a request),
  and the platform's \<open>JSON.parse\<close> (\<open>None\<close> when it throws) and \<open>JSON.stringify\<close>.
  The lazy \<open>import('./tavily')\<close> is taken to succeed.
\<close>

record Env =
  VITE_GROQ_API_KEY :: "string option"
  VITE_TAVILY_API_KEY :: "string option"
  dateStr :: string
  fetch_completion :: "CompletionRequest \<Rightarrow> fetch_result"
  fetch_search :: "SearchRequest \<Rightarrow> fetch_result"
  JSON_parse :: "string \<Rightarrow> json option"
  JSON_stringify :: "json \<Rightarrow> string"

text \<open>What one send does that the outside can see, in order.\<close>

datatype event =
    StatusChange ChatStatus
  | CompletionCall CompletionRequest
  | SearchCall SearchRequest

text \<open>\<open>onStatusChange?.(s)\<close>: the callback is optional.\<close>

definition notify :: "bool \<Rightarrow> ChatStatus \<Rightarrow> event list" where
  "notify has_callback s = (if has_callback then [StatusChange s] else [])"

section \<open>services/tavily.ts\<close>

definition searchWeb :: "Env \<Rightarrow> json option \<Rightarrow> event list \<times> (thrown + json)" where
  "searchWeb env query =
     (case VITE_TAVILY_API_KEY env of
        None \<Rightarrow> ([], Inl (JsError ''Tavily API key is not configured.''))
      | Some apiKey \<Rightarrow>
          if apiKey = [] \<or> apiKey = ''your_tavily_api_key_here''
          then ([], Inl (JsError ''Tavily API key is not configured.''))
          else
            (let req = \<lparr>search_api_key = apiKey, search_query = query\<rparr> in
             case fetch_search env req of
               Rejected e \<Rightarrow> ([SearchCall req], Inl e)
             | Resolved response \<Rightarrow>
                 if \<not> ok response
                 then ([SearchCall req],
                       Inl (JsError (''Tavily search failed: '' @ digits (status response))))
                 else ([SearchCall req], json_body response)))"

definition source_line :: "nat \<Rightarrow> json \<Rightarrow> string" where
  "source_line i r =
     digits (i + 1) @ ''. ['' @ js_String (get_prop r ''title'') @ '']('' @
     js_String (get_prop r ''url'') @ '')''"

text \<open>
  \<open>formatSourcesMarkdown\<close> on the array the search response holds. Reading \<open>r.title\<close>
  of a \<open>null\<close> entry throws a \<open>TypeError\<close>.
\<close>

definition formatSourcesMarkdown :: "json list \<Rightarrow> thrown + string" where
  "formatSourcesMarkdown results =
     (if results = [] then Inr []
      else if JNull \<in> set (take 5 results) then Inl (JsError ''TypeError'')
      else Inr ([CHR 0x0A, CHR 0x0A] @ ''---'' @ [CHR 0x0A] @ ''**Sources:**'' @ [CHR 0x0A] @
                join [CHR 0x0A] (map (\<lambda>(i, r). source_line i r) (enumerate 0 (take 5 results)))))"

section \<open>services/openai.ts\<close>

definition buildSystemPrompt :: "string \<Rightarrow> string" where
  "buildSystemPrompt d =
     ''You are a helpful, knowledgeable, and thoughtful AI assistant built by Cognizant.'' @ [CHR 0x0A] @
     ''You provide clear, accurate, and well-structured responses.'' @ [CHR 0x0A] @
     ''When writing code, always specify the programming language in code blocks.'' @ [CHR 0x0A] @
     ''Be concise but thorough. Use markdown formatting where appropriate.'' @ [CHR 0x0A] @
     ''Today'' @ [CHR 0x27] @ ''s date is '' @ d @
     ''. Your training data has a knowledge cutoff, so for very recent events you should use the web_search tool to get current information.''"

text \<open>The request that \<open>doFetch(messages, apiKey, includeTools)\<close> posts.\<close>

definition doFetch :: "OpenAIMessage list \<Rightarrow> string \<Rightarrow> bool \<Rightarrow> CompletionRequest" where
  "doFetch msgs apiKey includeTools =
     \<lparr>req_apiKey = apiKey, req_messages = msgs, req_tools = includeTools\<rparr>"

text \<open>\<open>handleHttpError\<close> always throws; the model returns what it throws.\<close>

definition handleHttpError :: "Response \<Rightarrow> thrown" where
  "handleHttpError response =
     (let dflt = ''Request failed with status '' @ digits (status response);
          errorMessage =
            (case json_body response of
               Inl e \<Rightarrow> dflt
             | Inr errorData \<Rightarrow>
                 js_String (js_or (js_or (opt_prop (opt_prop (Some errorData) ''error'') ''message'')
                                         (opt_prop (Some errorData) ''error''))
                                  (Some (JStr dflt))));
          code =
            (case json_body response of
               Inl e \<Rightarrow> None
             | Inr errorData \<Rightarrow> opt_prop (opt_prop (Some errorData) ''error'') ''code'')
      in if status response = 401
         then OpenAIError ''Invalid API key. Please check your VITE_GROQ_API_KEY in the .env file.'' (Some 401) code
         else if status response = 429
         then OpenAIError ''Rate limit exceeded. Please wait a moment before sending another message.'' (Some 429) code
         else if status response = 503
         then OpenAIError ''Service unavailable. Please try again shortly.'' (Some 503) code
         else if status response = 500
         then OpenAIError ''Groq is experiencing issues. Please try again shortly.'' (Some 500) code
         else OpenAIError errorMessage (Some (status response)) code)"

definition empty_response :: thrown where
  "empty_response = OpenAIError ''Received an empty response from the AI. Please try again.'' None None"

text \<open>\<open>typeof c !== 'string' || c.trim() === ''\<close> throws, otherwise \<open>c\<close> is the text.\<close>

definition checkContent :: "json option \<Rightarrow> thrown + string" where
  "checkContent c =
     (case c of
        Some (JStr s) \<Rightarrow> if trim s = [] then Inl empty_response else Inr s
      | _ \<Rightarrow> Inl empty_response)"

text \<open>\<open>data?.choices?.[0]?.message?.content\<close>\<close>

definition first_choice :: "json \<Rightarrow> json option" where
  "first_choice d = opt_index (opt_prop (Some d) ''choices'') 0"

definition choice_content :: "json option \<Rightarrow> json option" where
  "choice_content ch = opt_prop (opt_prop ch ''message'') ''content''"

text \<open>The \<open>catch\<close> around the first \<open>doFetch\<close>.\<close>

definition first_fetch_error :: "thrown \<Rightarrow> thrown" where
  "first_fetch_error err =
     (case err of
        OpenAIError m s c \<Rightarrow> err
      | _ \<Rightarrow>
          (let msg = thrown_message err in
           if js_includes (toLowerCase msg) ''failed to fetch''
              \<or> js_includes (toLowerCase msg) ''load failed''
              \<or> js_includes (toLowerCase msg) ''networkerror''
           then OpenAIError ''Network error. Please check your internet connection and try again.''
                  (Some 0) (Some (JStr ''network_error''))
           else OpenAIError (''Request failed: '' @ msg) None None))"

text \<open>The \<open>catch\<close> around the second \<open>doFetch\<close>.\<close>

definition second_fetch_error :: "thrown \<Rightarrow> thrown" where
  "second_fetch_error err =
     (case err of
        OpenAIError m s c \<Rightarrow> err
      | _ \<Rightarrow> OpenAIError (''Request failed: '' @ thrown_message err) None None)"

text \<open>\<open>String(errBody?.error?.message || errBody?.error || '')\<close>, and the empty
  string when the body cannot be read.\<close>

definition error_body_message :: "Response \<Rightarrow> string" where
  "error_body_message response =
     (case json_body response of
        Inl e \<Rightarrow> []
      | Inr errBody \<Rightarrow>
          js_String (js_or (js_or (opt_prop (opt_prop (Some errBody) ''error'') ''message'')
                                  (opt_prop (Some errBody) ''error''))
                           (Some (JStr []))))"

definition is_failed_tool_call :: "string \<Rightarrow> bool" where
  "is_failed_tool_call errMsg =
     (js_includes errMsg ''Failed to call a function'' \<or> js_includes errMsg ''failed_generation'')"

text \<open>The retry of lines 166 to 174: the same messages, no tool declaration.\<close>

definition retry_without_tools ::
  "Env \<Rightarrow> bool \<Rightarrow> OpenAIMessage list \<Rightarrow> string \<Rightarrow> event list \<times> (thrown + string)" where
  "retry_without_tools env cb msgs apiKey =
     (let req = doFetch msgs apiKey False;
          evs = notify cb thinking @ [CompletionCall req]
      in case fetch_completion env req of
           Rejected e \<Rightarrow> (evs, Inl e)
         | Resolved retryResp \<Rightarrow>
             if \<not> ok retryResp then (evs, Inl (handleHttpError retryResp))
             else
               (case json_body retryResp of
                  Inl e \<Rightarrow> (evs, Inl e)
                | Inr retryData \<Rightarrow> (evs, checkContent (choice_content (first_choice retryData)))))"

text \<open>
  \<open>(JSON.parse(toolCall.function.arguments) as { query: string }).query\<close> inside its
  \<open>try\<close>: \<open>None\<close> when anything throws (no \<open>function\<close>, unparsable arguments, or
  arguments that parse to \<open>null\<close>), otherwise the \<open>query\<close> property, which may be
  \<open>undefined\<close>.
\<close>

definition parse_search_query :: "Env \<Rightarrow> json \<Rightarrow> json option option" where
  "parse_search_query env toolCall =
     (case get_prop toolCall ''function'' of
        None \<Rightarrow> None
      | Some JNull \<Rightarrow> None
      | Some f \<Rightarrow>
          (case JSON_parse env (js_String (get_prop f ''arguments'')) of
             None \<Rightarrow> None
           | Some JNull \<Rightarrow> None
           | Some parsed \<Rightarrow> Some (get_prop parsed ''query'')))"

definition search_unavailable :: "Env \<Rightarrow> string" where
  "search_unavailable env =
     JSON_stringify env
       (JObj [(''error'', JStr ''Web search unavailable. Answer from your training knowledge.'')])"

text \<open>
  One entry of the tool result:
  \<open>{ title: r.title, url: r.url, content: r.content.slice(0, 500) }\<close>.
  It throws on a \<open>null\<close> entry and on a content that has no \<open>slice\<close>; a property that
  is \<open>undefined\<close> is left out, as \<open>JSON.stringify\<close> leaves it out.
\<close>

definition optional_field :: "string \<Rightarrow> json option \<Rightarrow> (string \<times> json) list" where
  "optional_field k v = (case v of None \<Rightarrow> [] | Some j \<Rightarrow> [(k, j)])"

definition result_entry :: "json \<Rightarrow> thrown + json" where
  "result_entry r =
     (if r = JNull then Inl (JsError ''TypeError'')
      else
        (case get_prop r ''content'' of
           Some (JStr s) \<Rightarrow>
             Inr (JObj (optional_field ''title'' (get_prop r ''title'') @
                        optional_field ''url'' (get_prop r ''url'') @
                        [(''content'', JStr (take 500 s))]))
         | Some (JArr xs) \<Rightarrow>
             Inr (JObj (optional_field ''title'' (get_prop r ''title'') @
                        optional_field ''url'' (get_prop r ''url'') @
                        [(''content'', JArr (take 500 xs))]))
         | _ \<Rightarrow> Inl (JsError ''TypeError'')))"

fun result_entries :: "json list \<Rightarrow> thrown + json list" where
  "result_entries [] = Inr []"
| "result_entries (r # rs) =
     (case result_entry r of
        Inl e \<Rightarrow> Inl e
      | Inr x \<Rightarrow> (case result_entries rs of Inl e \<Rightarrow> Inl e | Inr xs \<Rightarrow> Inr (x # xs)))"

text \<open>
  The \<open>try\<close> of lines 213 to 227: the search, the citation block and the tool-result
  payload. Whatever throws inside is caught and the fallback payload is used; the
  citation block keeps the value it had when the throw happened.
  The result is (events, searchResultContent, sourcesMarkdown).
\<close>

definition search_phase :: "Env \<Rightarrow> json option \<Rightarrow> event list \<times> string \<times> string" where
  "search_phase env query =
     (case searchWeb env query of
        (evs, Inl e) \<Rightarrow> (evs, search_unavailable env, [])
      | (evs, Inr tavilyData) \<Rightarrow>
          (case opt_prop (Some tavilyData) ''results'' of
             Some (JArr results) \<Rightarrow>
               (case formatSourcesMarkdown results of
                  Inl e \<Rightarrow> (evs, search_unavailable env, [])
                | Inr sourcesMarkdown \<Rightarrow>
                    (case result_entries (take 5 results) of
                       Inl e \<Rightarrow> (evs, search_unavailable env, sourcesMarkdown)
                     | Inr entries \<Rightarrow> (evs, JSON_stringify env (JArr entries), sourcesMarkdown)))
           | _ \<Rightarrow> (evs, search_unavailable env, [])))"

text \<open>Lines 229 to 264: the second request and its answer.\<close>

definition second_call ::
  "Env \<Rightarrow> OpenAIMessage list \<Rightarrow> string \<Rightarrow> string \<Rightarrow> event list \<times> (thrown + string)" where
  "second_call env messagesWithToolResult apiKey sourcesMarkdown =
     (let req = doFetch messagesWithToolResult apiKey False in
      case fetch_completion env req of
        Rejected err \<Rightarrow> ([CompletionCall req], Inl (second_fetch_error err))
      | Resolved secondResponse \<Rightarrow>
          if \<not> ok secondResponse then ([CompletionCall req], Inl (handleHttpError secondResponse))
          else
            (case json_body secondResponse of
               Inl e \<Rightarrow> ([CompletionCall req], Inl e)
             | Inr secondData \<Rightarrow>
                 (case checkContent (choice_content (first_choice secondData)) of
                    Inl e \<Rightarrow> ([CompletionCall req], Inl e)
                  | Inr finalContent \<Rightarrow> ([CompletionCall req], Inr (finalContent @ sourcesMarkdown)))))"

text \<open>Lines 196 to 264: the tool-call path, entered when \<open>finish_reason\<close> is
  \<open>tool_calls\<close>.\<close>

definition tool_call_path ::
  "Env \<Rightarrow> bool \<Rightarrow> OpenAIMessage list \<Rightarrow> string \<Rightarrow> json option \<Rightarrow> event list \<times> (thrown + string)" where
  "tool_call_path env cb msgs apiKey firstChoice =
     (let tool_calls = opt_prop (opt_prop firstChoice ''message'') ''tool_calls'' in
      case opt_index tool_calls 0 of
        None \<Rightarrow> ([], Inl (OpenAIError ''Model indicated tool use but provided no tool call.'' None None))
      | Some toolCall \<Rightarrow>
          if \<not> truthy (Some toolCall)
          then ([], Inl (OpenAIError ''Model indicated tool use but provided no tool call.'' None None))
          else
            (case parse_search_query env toolCall of
               None \<Rightarrow> ([], Inl (OpenAIError ''Model returned an invalid search query.'' None None))
             | Some searchQuery \<Rightarrow>
                 (case search_phase env searchQuery of
                    (evs_search, searchResultContent, sourcesMarkdown) \<Rightarrow>
                      (let messagesWithToolResult =
                             msgs @ [AssistantToolCalls tool_calls,
                                     ToolResult searchResultContent (get_prop toolCall ''id'')]
                       in case second_call env messagesWithToolResult apiKey sourcesMarkdown of
                            (evs_second, res) \<Rightarrow>
                              (notify cb searching @ evs_search @ notify cb thinking @ evs_second,
                               res)))))"

text \<open>Lines 183 to 264: the first response was a success.\<close>

definition after_first_ok ::
  "Env \<Rightarrow> bool \<Rightarrow> OpenAIMessage list \<Rightarrow> string \<Rightarrow> Response \<Rightarrow> event list \<times> (thrown + string)" where
  "after_first_ok env cb msgs apiKey firstResponse =
     (case json_body firstResponse of
        Inl e \<Rightarrow> ([], Inl e)
      | Inr firstData \<Rightarrow>
          (let firstChoice = first_choice firstData;
               finishReason =
                 (case opt_prop firstChoice ''finish_reason'' of
                    None \<Rightarrow> JStr ''stop''
                  | Some JNull \<Rightarrow> JStr ''stop''
                  | Some j \<Rightarrow> j)
           in if finishReason \<noteq> JStr ''tool_calls''
              then ([], checkContent (choice_content firstChoice))
              else tool_call_path env cb msgs apiKey firstChoice))"

definition missing_api_key :: thrown where
  "missing_api_key =
     OpenAIError ''Groq API key is not configured. Please add your VITE_GROQ_API_KEY to the .env file.''
       (Some 401) (Some (JStr ''missing_api_key''))"

text \<open>
  \<open>sendChatMessage\<close>: the events of the send in order, and what it returns (\<open>Inr\<close>) or
  throws (\<open>Inl\<close>). \<open>cb\<close> says whether a status callback was passed.
\<close>

definition sendChatMessage ::
  "Env \<Rightarrow> bool \<Rightarrow> OpenAIMessage list \<Rightarrow> event list \<times> (thrown + string)" where
  "sendChatMessage env cb conversationHistory =
     (case VITE_GROQ_API_KEY env of
        None \<Rightarrow> ([], Inl missing_api_key)
      | Some apiKey \<Rightarrow>
          if apiKey = [] \<or> apiKey = ''your_groq_api_key_here'' then ([], Inl missing_api_key)
          else
            (let msgs = ChatMsg system (buildSystemPrompt (dateStr env)) # conversationHistory;
                 req1 = doFetch msgs apiKey True;
                 evs1 = notify cb thinking @ [CompletionCall req1]
             in case fetch_completion env req1 of
                  Rejected err \<Rightarrow> (evs1, Inl (first_fetch_error err))
                | Resolved firstResponse \<Rightarrow>
                    if \<not> ok firstResponse then
                      (if status firstResponse = 400 then
                         (let errMsg = error_body_message firstResponse in
                          if is_failed_tool_call errMsg
                          then (case retry_without_tools env cb msgs apiKey of
                                  (evs2, res) \<Rightarrow> (evs1 @ evs2, res))
                          else (evs1, Inl (OpenAIError
                                  (if errMsg = [] then ''Request failed with status 400'' else errMsg)
                                  (Some 400) None)))
                       else (evs1, Inl (handleHttpError firstResponse)))
                    else (case after_first_ok env cb msgs apiKey firstResponse of
                            (evs2, res) \<Rightarrow> (evs1 @ evs2, res))))"

section \<open>utils/storage.ts\<close>

text \<open>
  \<open>localStorage\<close> holds texts. A stored text is represented by what the program
  observes of it: whether it is the empty string and what \<open>JSON.parse\<close> makes of it
  (a syntax error or a value). \<open>JSON.stringify\<close> of a JSON value is the non-empty text
  that parses back to that value. \<open>setItem\<close> throws when the quota is exceeded;
  \<open>getItem\<close> and \<open>removeItem\<close> do not throw.
\<close>

datatype stored_text = EmptyText | Malformed | JsonText json

record LocalStorage =
  items :: "string \<Rightarrow> stored_text option"
  quota_exceeded :: bool

definition SESSIONS_KEY :: string where
  "SESSIONS_KEY = ''neural_chat_sessions''"

definition LEGACY_KEY :: string where
  "LEGACY_KEY = ''neural_chat_history''"

definition MAX_SESSIONS :: nat where
  "MAX_SESSIONS = 50"

definition getItem :: "LocalStorage \<Rightarrow> string \<Rightarrow> stored_text option" where
  "getItem ls k = items ls k"

definition setItem :: "string \<Rightarrow> stored_text \<Rightarrow> LocalStorage \<Rightarrow> LocalStorage option" where
  "setItem k v ls = (if quota_exceeded ls then None else Some (ls\<lparr>items := (items ls)(k \<mapsto> v)\<rparr>))"

definition removeItem :: "string \<Rightarrow> LocalStorage \<Rightarrow> LocalStorage" where
  "removeItem k ls = ls\<lparr>items := (items ls)(k := None)\<rparr>"

definition is_string :: "json option \<Rightarrow> bool" where
  "is_string v = (case v of Some (JStr s) \<Rightarrow> True | _ \<Rightarrow> False)"

definition is_array :: "json option \<Rightarrow> bool" where
  "is_array v = (case v of Some (JArr xs) \<Rightarrow> True | _ \<Rightarrow> False)"

text \<open>\<open>typeof m === 'object' && m !== null\<close>: an object or an array.\<close>

definition is_object :: "json \<Rightarrow> bool" where
  "is_object m = (case m of JObj kvs \<Rightarrow> True | JArr xs \<Rightarrow> True | _ \<Rightarrow> False)"

definition isValidMessage :: "json \<Rightarrow> bool" where
  "isValidMessage m =
     (is_object m \<and>
      is_string (get_prop m ''id'') \<and>
      is_string (get_prop m ''role'') \<and>
      is_string (get_prop m ''content'') \<and>
      is_string (get_prop m ''timestamp''))"

definition isValidSession :: "json \<Rightarrow> bool" where
  "isValidSession s =
     (is_object s \<and>
      is_string (get_prop s ''id'') \<and>
      is_string (get_prop s ''title'') \<and>
      is_array (get_prop s ''messages'') \<and>
      is_string (get_prop s ''createdAt'') \<and>
      is_string (get_prop s ''updatedAt''))"

text \<open>\<open>{ ...s, k: v }\<close> on the property list of \<open>s\<close>: an existing property keeps its
  place, a new one goes last.\<close>

fun set_prop :: "string \<Rightarrow> json \<Rightarrow> (string \<times> json) list \<Rightarrow> (string \<times> json) list" where
  "set_prop k v [] = [(k, v)]"
| "set_prop k v ((k', v') # kvs) = (if k' = k then (k, v) # kvs else (k', v') # set_prop k v kvs)"

text \<open>\<open>s => ({ ...s, messages: s.messages.filter(isValidMessage) })\<close> on a session
  that passed \<open>isValidSession\<close>.\<close>

definition keep_valid_messages :: "json \<Rightarrow> json" where
  "keep_valid_messages s =
     (case s of
        JObj kvs \<Rightarrow>
          (case map_of kvs ''messages'' of
             Some (JArr ms) \<Rightarrow> JObj (set_prop ''messages'' (JArr (filter isValidMessage ms)) kvs)
           | _ \<Rightarrow> s)
      | _ \<Rightarrow> s)"

definition saveSessions :: "json list \<Rightarrow> LocalStorage \<Rightarrow> LocalStorage" where
  "saveSessions sessions_arr ls =
     (case setItem SESSIONS_KEY (JsonText (JArr (take MAX_SESSIONS sessions_arr))) ls of
        Some ls' \<Rightarrow> ls'
      | None \<Rightarrow> ls)"

text \<open>
  The session that the migration builds from the valid legacy messages \<open>first # rest\<close>.
  They passed \<open>isValidMessage\<close>, so \<open>content\<close> and \<open>timestamp\<close> are strings; the
  other branches are never taken.
\<close>

definition legacy_session :: "string \<Rightarrow> json \<Rightarrow> json list \<Rightarrow> json" where
  "legacy_session new_id first rest =
     JObj [(''id'', JStr new_id),
           (''title'',
              (case find (\<lambda>m. get_prop m ''role'' = Some (JStr ''user'')) (first # rest) of
                 None \<Rightarrow> JStr ''Previous Chat''
               | Some firstUser \<Rightarrow>
                   (case get_prop firstUser ''content'' of
                      Some (JStr c) \<Rightarrow> JStr (take 40 c)
                    | _ \<Rightarrow> JNull))),
           (''messages'', JArr (first # rest)),
           (''createdAt'', (case get_prop first ''timestamp'' of Some t \<Rightarrow> t | None \<Rightarrow> JNull)),
           (''updatedAt'',
              (case get_prop (last (first # rest)) ''timestamp'' of Some t \<Rightarrow> t | None \<Rightarrow> JNull))]"

text \<open>The v1 to v2 migration of \<open>loadSessions\<close> (lines 174 to 193).\<close>

definition migrate_legacy :: "string \<Rightarrow> LocalStorage \<Rightarrow> json list \<times> LocalStorage" where
  "migrate_legacy new_id ls =
     (case getItem ls LEGACY_KEY of
        Some (JsonText (JArr parsed)) \<Rightarrow>
          (case filter isValidMessage parsed of
             [] \<Rightarrow> ([], ls)
           | first # rest \<Rightarrow>
               (let session = legacy_session new_id first rest
                in ([session], saveSessions [session] (removeItem LEGACY_KEY ls))))
      | _ \<Rightarrow> ([], ls))"

text \<open>
  \<open>loadSessions\<close>: the sessions it returns and the storage it leaves. \<open>new_id\<close> is what
  \<open>generateId()\<close> gives if the migration asks for an id. A text that \<open>JSON.parse\<close>
  rejects ends the load with the empty list, through the \<open>catch\<close>.
\<close>

definition loadSessions :: "string \<Rightarrow> LocalStorage \<Rightarrow> json list \<times> LocalStorage" where
  "loadSessions new_id ls =
     (case getItem ls SESSIONS_KEY of
        Some Malformed \<Rightarrow> ([], ls)
      | Some (JsonText (JArr parsed)) \<Rightarrow>
          (let loaded = map keep_valid_messages (filter isValidSession parsed) in
           if loaded \<noteq> [] then (loaded, ls) else migrate_legacy new_id ls)
      | _ \<Rightarrow> migrate_legacy new_id ls)"

definition clearAllSessions :: "LocalStorage \<Rightarrow> LocalStorage" where
  "clearAllSessions ls = removeItem LEGACY_KEY (removeItem SESSIONS_KEY ls)"

text \<open>
  The values of the declared shapes \<open>Message\<close> and \<open>Session\<close> as the JSON that
  \<open>JSON.stringify\<close> writes for them: an optional field that is absent is left out.
\<close>

fun role_name :: "MessageRole \<Rightarrow> string" where
  "role_name user = ''user''"
| "role_name assistant = ''assistant''"
| "role_name system = ''system''"

definition Message_json :: "Message \<Rightarrow> json" where
  "Message_json m =
     JObj ([(''id'', JStr (message_id m)),
            (''role'', JStr (role_name (role m))),
            (''content'', JStr (content m)),
            (''timestamp'', JStr (timestamp m))] @
           (case isError m of None \<Rightarrow> [] | Some b \<Rightarrow> [(''isError'', JBool b)]))"

definition Session_json :: "Session \<Rightarrow> json" where
  "Session_json s =
     JObj ([(''id'', JStr (session_id s)),
            (''title'', JStr (title s)),
            (''messages'', JArr (map Message_json (messages s))),
            (''createdAt'', JStr (createdAt s)),
            (''updatedAt'', JStr (updatedAt s))] @
           (case starred s of None \<Rightarrow> [] | Some b \<Rightarrow> [(''starred'', JBool b)]))"

section \<open>hooks/useChat.ts\<close>

text \<open>
  The state of the hook. What the clock (\<open>new Date().toISOString()\<close>),
  \<open>generateId()\<close> and \<open>window.confirm\<close> give is passed in.

  A callback of the hook is made by a render and reads \<open>sessions\<close>,
  \<open>currentSessionId\<close>, \<open>currentMessages\<close> and \<open>isLoading\<close> as that render saw them
  (they are the dependencies of its \<open>useCallback\<close>), while the updaters it passes to
  \<open>setSessions\<close> run on the latest state. So a callback that reads the rendered state
  takes two states: \<open>r\<close>, the state of the render that made it, and \<open>st\<close>, the state
  its updates are applied to. The updates of one call are applied when the call is
  made, in program order, and an updater runs once, as in a production build.
\<close>

record ChatState =
  sessions :: "Session list"
  currentSessionId :: "string option"
  isLoading :: bool
  chatStatus :: ChatStatus

definition createEmptySession :: "string \<Rightarrow> string \<Rightarrow> Session" where
  "createEmptySession now new_id =
     \<lparr>session_id = new_id, title = ''New Chat'', messages = [],
      createdAt = now, updatedAt = now, starred = None\<rparr>"

definition initial_state :: ChatState where
  "initial_state = \<lparr>sessions = [], currentSessionId = None, isLoading = False, chatStatus = idle\<rparr>"

text \<open>\<open>sessions.find(s => s.id === currentSessionId)\<close>\<close>

definition current_session :: "ChatState \<Rightarrow> Session option" where
  "current_session st =
     (case currentSessionId st of
        None \<Rightarrow> None
      | Some i \<Rightarrow> find (\<lambda>s. session_id s = i) (sessions st))"


text \<open>The effect that runs on mount, with what \<open>loadSessions()\<close> returned.\<close>

definition load_on_mount :: "Session list \<Rightarrow> string \<Rightarrow> string \<Rightarrow> ChatState \<Rightarrow> ChatState" where
  "load_on_mount stored now new_id st =
     (case stored of
        first # rest \<Rightarrow> st\<lparr>sessions := stored, currentSessionId := Some (session_id first)\<rparr>
      | [] \<Rightarrow>
          st\<lparr>sessions := [createEmptySession now new_id],
             currentSessionId := Some (session_id (createEmptySession now new_id))\<rparr>)"

text \<open>
  \<open>createNewSession\<close>: the guard looks for the active session in the rendered state
  \<open>r\<close> (lines 96 and 97); the updater of line 100 puts the new session in front of the
  latest collection.
\<close>

definition createNewSession :: "ChatState \<Rightarrow> string \<Rightarrow> string \<Rightarrow> ChatState \<Rightarrow> ChatState" where
  "createNewSession r now new_id st =
     (case current_session r of
        Some current \<Rightarrow>
          if messages current = [] then st
          else st\<lparr>sessions := createEmptySession now new_id # sessions st,
                  currentSessionId := Some (session_id (createEmptySession now new_id))\<rparr>
      | None \<Rightarrow>
          st\<lparr>sessions := createEmptySession now new_id # sessions st,
             currentSessionId := Some (session_id (createEmptySession now new_id))\<rparr>)"

definition switchSession :: "string \<Rightarrow> ChatState \<Rightarrow> ChatState" where
  "switchSession i st = st\<lparr>currentSessionId := Some i\<rparr>"

text \<open>
  \<open>deleteSession\<close>: the updater filters the latest collection; the comparison
  \<open>id === currentSessionId\<close> of line 116 is with the pointer of the rendered state \<open>r\<close>.
\<close>

definition deleteSession :: "ChatState \<Rightarrow> string \<Rightarrow> string \<Rightarrow> string \<Rightarrow> ChatState \<Rightarrow> ChatState" where
  "deleteSession r now new_id i st =
     (case filter (\<lambda>s. session_id s \<noteq> i) (sessions st) of
        [] \<Rightarrow>
          st\<lparr>sessions := [createEmptySession now new_id],
             currentSessionId := Some (session_id (createEmptySession now new_id))\<rparr>
      | first # rest \<Rightarrow>
          if Some i = currentSessionId r
          then st\<lparr>sessions := first # rest, currentSessionId := Some (session_id first)\<rparr>
          else st\<lparr>sessions := first # rest\<rparr>)"

definition renameSession :: "string \<Rightarrow> string \<Rightarrow> ChatState \<Rightarrow> ChatState" where
  "renameSession i newTitle st =
     (if trim newTitle = [] then st
      else st\<lparr>sessions :=
                map (\<lambda>s. if session_id s = i then s\<lparr>title := trim newTitle\<rparr> else s) (sessions st)\<rparr>)"

text \<open>\<open>!s.starred\<close>: an absent flag counts as false.\<close>

definition toggleStarSession :: "string \<Rightarrow> ChatState \<Rightarrow> ChatState" where
  "toggleStarSession i st =
     st\<lparr>sessions :=
          map (\<lambda>s. if session_id s = i then s\<lparr>starred := Some (starred s \<noteq> Some True)\<rparr> else s)
              (sessions st)\<rparr>"

text \<open>
  \<open>clearCurrentSession\<close>: the updater maps over the latest collection; the comparison
  \<open>s.id === currentSessionId\<close> of line 142 is with the pointer of the rendered state
  \<open>r\<close>, the session the user sees as active.
\<close>

definition clearCurrentSession :: "ChatState \<Rightarrow> bool \<Rightarrow> string \<Rightarrow> ChatState \<Rightarrow> ChatState" where
  "clearCurrentSession r confirmed now st =
     (if \<not> confirmed then st
      else st\<lparr>sessions :=
                map (\<lambda>s. if Some (session_id s) = currentSessionId r
                          then s\<lparr>messages := [], title := ''New Chat'', updatedAt := now\<rparr>
                          else s)
                    (sessions st)\<rparr>)"

text \<open>
  \<open>sendMessage\<close>. What the clock and \<open>generateId()\<close> give during one send: the time
  and id of the user message, the id and time of the reply, and the time the reply's
  updater writes to \<open>updatedAt\<close>.
\<close>

record SendClock =
  sent_at :: string
  user_message_id :: string
  reply_id :: string
  reply_at :: string
  reply_updated_at :: string

text \<open>
  The guard \<open>!currentSessionId || !trimmed || isLoading\<close> of line 163, on the pointer
  and the flag of the rendered state \<open>r\<close>: an empty string is falsy as \<open>null\<close> is.
\<close>

definition send_blocked :: "ChatState \<Rightarrow> string \<Rightarrow> bool" where
  "send_blocked r text =
     (currentSessionId r = None \<or> currentSessionId r = Some [] \<or> trim text = [] \<or> isLoading r)"


definition add_user_message :: "string \<Rightarrow> Message \<Rightarrow> string \<Rightarrow> string \<Rightarrow> Session \<Rightarrow> Session" where
  "add_user_message sessionId userMessage trimmed now s =
     (if session_id s \<noteq> sessionId then s
      else s\<lparr>messages := messages s @ [userMessage],
             title := (if \<not> list_ex (\<lambda>m. role m = user) (messages s) then take 40 trimmed else title s),
             updatedAt := now\<rparr>)"

text \<open>Lines 181 to 194, once the guard has let the send through to session
  \<open>sessionId\<close>: the three updates, applied to the latest state.\<close>

definition sendMessage_start :: "SendClock \<Rightarrow> string \<Rightarrow> string \<Rightarrow> ChatState \<Rightarrow> ChatState" where
  "sendMessage_start k sessionId text st =
     st\<lparr>isLoading := True,
        chatStatus := thinking,
        sessions :=
          map (add_user_message sessionId
                 \<lparr>message_id = user_message_id k, role = user, content = trim text,
                  timestamp = sent_at k, isError = None\<rparr>
                 (trim text) (sent_at k))
              (sessions st)\<rparr>"

text \<open>The assistant message of the \<open>try\<close> or of the \<open>catch\<close>.\<close>

definition reply_message :: "SendClock \<Rightarrow> thrown + string \<Rightarrow> Message" where
  "reply_message k res =
     (case res of
        Inr responseText \<Rightarrow>
          \<lparr>message_id = reply_id k, role = assistant, content = responseText,
           timestamp = reply_at k, isError = None\<rparr>
      | Inl err \<Rightarrow>
          \<lparr>message_id = reply_id k, role = assistant,
           content = (case err of NonError v \<Rightarrow> ''An unexpected error occurred.''
                      | _ \<Rightarrow> thrown_message err),
           timestamp = reply_at k, isError = Some True\<rparr>)"

text \<open>Lines 196 to 226: the reply is filed under the captured id, then the
  \<open>finally\<close> block runs.\<close>

definition sendMessage_finish ::
  "SendClock \<Rightarrow> string \<Rightarrow> thrown + string \<Rightarrow> ChatState \<Rightarrow> ChatState" where
  "sendMessage_finish k sessionId res st =
     st\<lparr>sessions :=
          map (\<lambda>s. if session_id s = sessionId
                    then s\<lparr>messages := messages s @ [reply_message k res],
                           updatedAt := reply_updated_at k\<rparr>
                    else s)
              (sessions st),
        isLoading := False,
        chatStatus := idle\<rparr>"

definition setChatStatus :: "ChatStatus \<Rightarrow> ChatState \<Rightarrow> ChatState" where
  "setChatStatus s st = st\<lparr>chatStatus := s\<rparr>"


text \<open>
  The mounted hook: the latest state, and the state the last render saw. After the
  first render (of the initial state) the mount effect has loaded the sessions.
\<close>

record Hook =
  latest :: ChatState
  rendered :: ChatState

definition mounted :: "Session list \<Rightarrow> string \<Rightarrow> string \<Rightarrow> Hook" where
  "mounted stored now new_id =
     \<lparr>latest = load_on_mount stored now new_id initial_state, rendered = initial_state\<rparr>"

text \<open>
  What happens to the hook, as data: a re-render, a call of one of its callbacks, and
  the three parts of a send (the synchronous start of the call, a status change from
  the completion client, and the continuation that files the reply), since renders and
  other calls may fall between them.
\<close>

datatype action =
    Render
  | CreateNewSession string string
  | SwitchSession string
  | DeleteSession string string string
  | RenameSession string string
  | ToggleStarSession string
  | ClearCurrentSession bool string
  | SendStart SendClock string
  | SetChatStatus ChatStatus
  | SendFinish SendClock string "thrown + string"

text \<open>
  One action. A render makes the latest state the rendered one; a callback reads the
  rendered state and updates the latest one.
\<close>

fun step :: "action \<Rightarrow> Hook \<Rightarrow> Hook" where
  "step Render h = h\<lparr>rendered := latest h\<rparr>"
| "step (CreateNewSession now new_id) h =
     h\<lparr>latest := createNewSession (rendered h) now new_id (latest h)\<rparr>"
| "step (SwitchSession i) h = h\<lparr>latest := switchSession i (latest h)\<rparr>"
| "step (DeleteSession now new_id i) h =
     h\<lparr>latest := deleteSession (rendered h) now new_id i (latest h)\<rparr>"
| "step (RenameSession i t) h = h\<lparr>latest := renameSession i t (latest h)\<rparr>"
| "step (ToggleStarSession i) h = h\<lparr>latest := toggleStarSession i (latest h)\<rparr>"
| "step (ClearCurrentSession confirmed now) h =
     h\<lparr>latest := clearCurrentSession (rendered h) confirmed now (latest h)\<rparr>"
| "step (SendStart k text) h =
     (if send_blocked (rendered h) text then h
      else (case currentSessionId (rendered h) of
              None \<Rightarrow> h
            | Some sessionId \<Rightarrow> h\<lparr>latest := sendMessage_start k sessionId text (latest h)\<rparr>))"
| "step (SetChatStatus s) h = h\<lparr>latest := setChatStatus s (latest h)\<rparr>"
| "step (SendFinish k sessionId res) h = h\<lparr>latest := sendMessage_finish k sessionId res (latest h)\<rparr>"

fun run :: "action list \<Rightarrow> Hook \<Rightarrow> Hook" where
  "run [] h = h"
| "run (a # as) h = run as (step a h)"

text \<open>The ids of the collection, and the pointer being null or one of them.\<close>

definition session_ids :: "ChatState \<Rightarrow> string list" where
  "session_ids st = map session_id (sessions st)"

definition pointer_ok :: "ChatState \<Rightarrow> bool" where
  "pointer_ok st =
     (case currentSessionId st of None \<Rightarrow> True | Some i \<Rightarrow> i \<in> set (session_ids st))"

text \<open>
  A run in which every \<open>switchSession\<close> is given an id that is in the collection at
  that moment, and every \<open>deleteSession\<close> is called on a render that shows the pointer
  as it is (the hook has re-rendered since the pointer last changed).
\<close>

fun admissible_run :: "action list \<Rightarrow> Hook \<Rightarrow> bool" where
  "admissible_run [] h = True"
| "admissible_run (SwitchSession i # as) h =
     (i \<in> set (session_ids (latest h)) \<and> admissible_run as (step (SwitchSession i) h))"
| "admissible_run (DeleteSession now new_id i # as) h =
     (currentSessionId (rendered h) = currentSessionId (latest h)
      \<and> admissible_run as (step (DeleteSession now new_id i) h))"
| "admissible_run (a # as) h = admissible_run as (step a h)"


text \<open>Consecutive calls of \<open>createNewSession\<close>, each with its time and fresh id, with
  no re-render between them, and with a re-render after each.\<close>

fun create_on_one_render :: "(string \<times> string) list \<Rightarrow> Hook \<Rightarrow> Hook" where
  "create_on_one_render [] h = h"
| "create_on_one_render ((now, new_id) # calls) h =
     create_on_one_render calls (step (CreateNewSession now new_id) h)"

fun create_and_render :: "(string \<times> string) list \<Rightarrow> Hook \<Rightarrow> Hook" where
  "create_and_render [] h = h"
| "create_and_render ((now, new_id) # calls) h =
     create_and_render calls (step Render (step (CreateNewSession now new_id) h))"

text \<open>The status notifications and the completion requests among the events.\<close>

fun statuses :: "event list \<Rightarrow> ChatStatus list" where
  "statuses [] = []"
| "statuses (StatusChange s # evs) = s # statuses evs"
| "statuses (e # evs) = statuses evs"

fun completion_calls :: "event list \<Rightarrow> CompletionRequest list" where
  "completion_calls [] = []"
| "completion_calls (CompletionCall r # evs) = r # completion_calls evs"
| "completion_calls (e # evs) = completion_calls evs"

section \<open>Example inputs\<close>


definition example_message :: Message where
  "example_message =
     \<lparr>message_id = ''m0'', role = user, content = ''Hello world'',
      timestamp = ''t0'', isError = None\<rparr>"

definition example_session :: Session where
  "example_session =
     \<lparr>session_id = ''s1'', title = ''Hello world'', messages = [example_message],
      createdAt = ''t0'', updatedAt = ''t0'', starred = Some True\<rparr>"

definition example_state :: ChatState where
  "example_state =
     \<lparr>sessions = [example_session, createEmptySession ''t0'' ''s0''],
      currentSessionId = Some ''s1'', isLoading = False, chatStatus = idle\<rparr>"


text \<open>A hook whose render is up to date, and the clock of a second send.\<close>

definition example_hook :: Hook where
  "example_hook = \<lparr>latest = example_state, rendered = example_state\<rparr>"


definition sole_state :: ChatState where
  "sole_state =
     \<lparr>sessions = [example_session], currentSessionId = Some ''s1'',
      isLoading = False, chatStatus = idle\<rparr>"

text \<open>
  A provider that answers a request declaring the tool with the 400 of a failed
  tool-call generation, and a request without tools with \<open>retry\<close>.
\<close>

definition failed_generation_response :: Response where
  "failed_generation_response =
     \<lparr>status = 400,
      json_body = Inr (JObj [(''error'',
          JObj [(''message'', JStr ''Failed to call a function. Please adjust your prompt.''),
                (''code'', JStr ''tool_use_failed'')])])\<rparr>"

definition answer_response :: "string \<Rightarrow> Response" where
  "answer_response t =
     \<lparr>status = 200,
      json_body = Inr (JObj [(''choices'',
          JArr [JObj [(''finish_reason'', JStr ''stop''),
                      (''message'', JObj [(''role'', JStr ''assistant''),
                                          (''content'', JStr t)])]])])\<rparr>"

definition server_error_response :: Response where
  "server_error_response = \<lparr>status = 500, json_body = Inl (JsError ''Unexpected token'')\<rparr>"

definition retry_env :: "Response \<Rightarrow> Env" where
  "retry_env retry =
     \<lparr>VITE_GROQ_API_KEY = Some ''gsk_live'',
      VITE_TAVILY_API_KEY = None,
      dateStr = ''Monday, November 2, 2026'',
      fetch_completion =
        (\<lambda>req. if req_tools req then Resolved failed_generation_response else Resolved retry),
      fetch_search = (\<lambda>req. Rejected (JsError ''Failed to fetch'')),
      JSON_parse = (\<lambda>t. None),
      JSON_stringify = (\<lambda>j. ''null'')\<rparr>"

text \<open>
  A provider that asks for a web search of \<open>weather\<close> and, given the tool result,
  answers \<open>Answer\<close>; no search key is configured.
\<close>

definition tool_call_json :: json where
  \<open>tool_call_json =
     JObj [(''id'', JStr ''call_1''),
           (''type'', JStr ''function''),
           (''function'', JObj [(''name'', JStr ''web_search''),
                                (''arguments'', JStr ''{"query":"weather"}'')])]\<close>

definition tool_call_body :: json where
  "tool_call_body =
     JObj [(''choices'',
          JArr [JObj [(''finish_reason'', JStr ''tool_calls''),
                      (''message'', JObj [(''role'', JStr ''assistant''),
                                          (''content'', JNull),
                                          (''tool_calls'', JArr [tool_call_json])])]])]"

definition tool_call_response :: Response where
  "tool_call_response = \<lparr>status = 200, json_body = Inr tool_call_body\<rparr>"

definition fallback_text :: string where
  \<open>fallback_text =
     ''{"error":"Web search unavailable. Answer from your training knowledge."}''\<close>

definition search_env :: Env where
  \<open>search_env =
     \<lparr>VITE_GROQ_API_KEY = Some ''gsk_live'',
      VITE_TAVILY_API_KEY = None,
      dateStr = ''Monday, November 2, 2026'',
      fetch_completion =
        (\<lambda>req. if req_tools req then Resolved tool_call_response
               else Resolved (answer_response ''Answer'')),
      fetch_search = (\<lambda>req. Rejected (JsError ''Failed to fetch'')),
      JSON_parse =
        (\<lambda>t. if t = ''{"query":"weather"}'' then Some (JObj [(''query'', JStr ''weather'')])
             else None),
      JSON_stringify =
        (\<lambda>j. if j = JObj [(''error'',
                     JStr ''Web search unavailable. Answer from your training knowledge.'')]
             then fallback_text
             else ''[]'')\<rparr>\<close>

text \<open>The message list of a send of \<open>hi\<close> in these environments.\<close>

definition example_msgs :: "OpenAIMessage list" where
  "example_msgs =
     [ChatMsg system (buildSystemPrompt ''Monday, November 2, 2026''), ChatMsg user ''hi'']"

text \<open>
  Storages: one with nothing stored, and one that holds only a legacy array of
  messages; \<open>full\<close> says whether writing to it exceeds the quota.
\<close>

definition empty_storage :: "bool \<Rightarrow> LocalStorage" where
  "empty_storage full = \<lparr>items = (\<lambda>k. None), quota_exceeded = full\<rparr>"

definition legacy_storage :: "Message list \<Rightarrow> bool \<Rightarrow> LocalStorage" where
  "legacy_storage ms full =
     \<lparr>items = (\<lambda>k. if k = LEGACY_KEY then Some (JsonText (JArr (map Message_json ms))) else None),
      quota_exceeded = full\<rparr>"

definition legacy_messages :: "Message list" where
  "legacy_messages =
     [\<lparr>message_id = ''a'', role = assistant, content = ''Welcome'',
       timestamp = ''2024-01-01T10:00:00.000Z'', isError = None\<rparr>,
      \<lparr>message_id = ''b'', role = user, content = ''Hello world'',
       timestamp = ''2024-01-01T10:01:00.000Z'', isError = None\<rparr>,
      \<lparr>message_id = ''c'', role = assistant, content = ''Hello'',
       timestamp = ''2024-01-01T10:02:00.000Z'', isError = None\<rparr>]"

section \<open>The session store\<close>

subsection \<open>Helper lemmas\<close>

lemma create_noop_or_prepend:
  "createNewSession r now new_id st = st
   \<or> createNewSession r now new_id st =
       st\<lparr>sessions := createEmptySession now new_id # sessions st,
          currentSessionId := Some new_id\<rparr>"
  by (simp add: createNewSession_def createEmptySession_def split: option.splits)

lemma create_on_empty_active:
  "current_session r = Some cur \<Longrightarrow> messages cur = [] \<Longrightarrow> createNewSession r now new_id st = st"
  by (simp add: createNewSession_def)

lemma current_after_prepend:
  "current_session (st\<lparr>sessions := createEmptySession now new_id # sessions st,
                      currentSessionId := Some new_id\<rparr>) = Some (createEmptySession now new_id)"
  by (simp add: current_session_def createEmptySession_def)

text \<open>A hook whose render is up to date and shows an empty active session: further
  calls of \<open>createNewSession\<close>, each followed by a render, leave it as it is.\<close>

lemma create_and_render_settled:
  assumes "rendered h = latest h"
    and "current_session (latest h) = Some cur" and "messages cur = []"
  shows "create_and_render calls h = h"
proof (induction calls)
  case Nil
  show ?case by simp
next
  case (Cons c calls)
  obtain now' id' where c: "c = (now', id')" by (cases c)
  have "createNewSession (rendered h) now' id' (latest h) = latest h"
    using assms by (simp add: create_on_empty_active)
  then have "step Render (step (CreateNewSession now' id') h) = h"
    using assms(1) by simp
  with Cons.IH show ?case by (simp add: c)
qed

lemma create_and_render_first:
  assumes "rendered h = latest h"
  shows "create_and_render ((now, new_id) # calls) h = step Render (step (CreateNewSession now new_id) h)"
proof -
  let ?h1 = "step Render (step (CreateNewSession now new_id) h)"
  have up: "rendered ?h1 = latest ?h1" by simp
  have l: "latest ?h1 = createNewSession (latest h) now new_id (latest h)"
    using assms by simp
  have "\<exists>cur. current_session (latest ?h1) = Some cur \<and> messages cur = []"
  proof (cases "\<exists>c. current_session (latest h) = Some c \<and> messages c = []")
    case True
    then obtain c where c: "current_session (latest h) = Some c" "messages c = []" by blast
    then have "createNewSession (latest h) now new_id (latest h) = latest h"
      by (simp add: create_on_empty_active)
    then have "latest ?h1 = latest h"
      by (simp only: l)
    with c show ?thesis by (simp only:) blast
  next
    case False
    then have "createNewSession (latest h) now new_id (latest h) =
        (latest h)\<lparr>sessions := createEmptySession now new_id # sessions (latest h),
          currentSessionId := Some new_id\<rparr>"
      by (auto simp: createNewSession_def createEmptySession_def split: option.splits)
    then have "latest ?h1 = (latest h)\<lparr>sessions := createEmptySession now new_id # sessions (latest h),
          currentSessionId := Some new_id\<rparr>"
      by (simp only: l)
    then have "current_session (latest ?h1) = Some (createEmptySession now new_id)"
      by (simp only: current_after_prepend)
    moreover have "messages (createEmptySession now new_id) = []"
      by (simp add: createEmptySession_def)
    ultimately show ?thesis by blast
  qed
  then obtain cur where "current_session (latest ?h1) = Some cur" "messages cur = []" by blast
  with up have "create_and_render calls ?h1 = ?h1"
    by (rule create_and_render_settled)
  then show ?thesis by simp
qed

lemma length_createNewSession:
  "length (sessions (createNewSession r now new_id st)) \<le> length (sessions st) + 1"
  by (simp add: createNewSession_def split: option.splits)

lemma create_and_render_length:
  "length (sessions (latest (create_and_render calls h))) \<le> length (sessions (latest h)) + 1"
proof (cases calls)
  case Nil
  then show ?thesis by simp
next
  case (Cons c rest)
  obtain now' id' where c: "c = (now', id')" by (cases c)
  let ?h1 = "step Render (step (CreateNewSession now' id') h)"
  have up: "rendered ?h1 = latest ?h1" by simp
  have l: "latest ?h1 = createNewSession (rendered h) now' id' (latest h)" by simp
  show ?thesis
  proof (cases "createNewSession (rendered h) now' id' (latest h) = latest h")
    case True
    then have same: "latest ?h1 = latest h" by (simp add: l)
    have "length (sessions (latest (create_and_render rest ?h1))) \<le> length (sessions (latest ?h1)) + 1"
    proof (cases rest)
      case Nil
      then show ?thesis by simp
    next
      case (Cons d rest')
      obtain t i where d: "d = (t, i)" by (cases d)
      have "create_and_render ((t, i) # rest') ?h1 = step Render (step (CreateNewSession t i) ?h1)"
        using up by (rule create_and_render_first)
      then show ?thesis
        using length_createNewSession [of "rendered ?h1" t i "latest ?h1"]
        by (simp add: Cons d)
    qed
    moreover have "create_and_render calls h = create_and_render rest ?h1"
      by (simp add: Cons c)
    ultimately show ?thesis by (simp only: same)
  next
    case False
    with create_noop_or_prepend [of "rendered h" now' id' "latest h"]
    have p: "latest ?h1 = (latest h)\<lparr>sessions := createEmptySession now' id' # sessions (latest h),
          currentSessionId := Some id'\<rparr>"
      by (simp add: l)
    then have "current_session (latest ?h1) = Some (createEmptySession now' id')"
      by (simp add: current_after_prepend)
    moreover have "messages (createEmptySession now' id') = []"
      by (simp add: createEmptySession_def)
    ultimately have "create_and_render rest ?h1 = ?h1"
      using up create_and_render_settled by blast
    then show ?thesis
      using length_createNewSession [of "rendered h" now' id' "latest h"]
      by (simp add: Cons c)
  qed
qed

lemma ids_map_keep:
  "(\<And>s. session_id (f s) = session_id s) \<Longrightarrow> map session_id (map f ss) = map session_id ss"
  by (induction ss) simp_all

lemma pointer_ok_sessions_update:
  "pointer_ok st \<Longrightarrow> map session_id ss = map session_id (sessions st)
     \<Longrightarrow> pointer_ok (st\<lparr>sessions := ss\<rparr>)"
  by (simp add: pointer_ok_def session_ids_def split: option.splits)

lemma pointer_ok_flags:
  "pointer_ok st \<Longrightarrow> sessions st' = sessions st \<Longrightarrow> currentSessionId st' = currentSessionId st
     \<Longrightarrow> pointer_ok st'"
  by (simp add: pointer_ok_def session_ids_def split: option.splits)

lemma pointer_ok_create: "pointer_ok st \<Longrightarrow> pointer_ok (createNewSession r now new_id st)"
  by (auto simp: createNewSession_def pointer_ok_def session_ids_def createEmptySession_def
      split: option.splits)

text \<open>\<open>deleteSession\<close> keeps the pointer in the collection when the render it is
  called on shows the pointer as it is.\<close>

lemma pointer_ok_delete:
  assumes ok: "pointer_ok st" and same: "currentSessionId r = currentSessionId st"
  shows "pointer_ok (deleteSession r now new_id i st)"
proof (cases "filter (\<lambda>s. session_id s \<noteq> i) (sessions st)")
  case Nil
  then show ?thesis
    by (simp add: deleteSession_def pointer_ok_def session_ids_def createEmptySession_def)
next
  case (Cons first rest)
  show ?thesis
  proof (cases "Some i = currentSessionId r")
    case True
    with Cons show ?thesis
      by (simp add: deleteSession_def pointer_ok_def session_ids_def)
  next
    case False
    have "\<And>j. currentSessionId st = Some j \<Longrightarrow> j \<in> session_id ` set (first # rest)"
    proof -
      fix j assume j: "currentSessionId st = Some j"
      with ok have "j \<in> session_id ` set (sessions st)"
        by (simp add: pointer_ok_def session_ids_def)
      moreover from j False same have "j \<noteq> i" by auto
      ultimately have "j \<in> session_id ` set (filter (\<lambda>s. session_id s \<noteq> i) (sessions st))"
        by auto
      then show "j \<in> session_id ` set (first # rest)" by (simp only: Cons)
    qed
    with Cons False show ?thesis
      by (auto simp: deleteSession_def pointer_ok_def session_ids_def split: option.splits)
  qed
qed

lemma pointer_ok_rename: "pointer_ok st \<Longrightarrow> pointer_ok (renameSession i t st)"
  by (simp add: renameSession_def pointer_ok_sessions_update ids_map_keep)

lemma pointer_ok_star: "pointer_ok st \<Longrightarrow> pointer_ok (toggleStarSession i st)"
  by (simp add: toggleStarSession_def pointer_ok_sessions_update ids_map_keep)

lemma pointer_ok_clear: "pointer_ok st \<Longrightarrow> pointer_ok (clearCurrentSession r c now st)"
  by (simp add: clearCurrentSession_def pointer_ok_sessions_update ids_map_keep)

lemma id_add_user_message [simp]: "session_id (add_user_message sid m t now s) = session_id s"
  by (simp add: add_user_message_def)

lemma pointer_ok_start: "pointer_ok st \<Longrightarrow> pointer_ok (sendMessage_start k sid text st)"
proof -
  assume ok: "pointer_ok st"
  have "pointer_ok (st\<lparr>sessions := map (add_user_message sid
                 \<lparr>message_id = user_message_id k, role = user, content = trim text,
                  timestamp = sent_at k, isError = None\<rparr>
                 (trim text) (sent_at k)) (sessions st)\<rparr>)"
    by (rule pointer_ok_sessions_update [OF ok]) (simp add: ids_map_keep)
  then show ?thesis
    by (rule pointer_ok_flags) (simp_all add: sendMessage_start_def)
qed

lemma pointer_ok_finish: "pointer_ok st \<Longrightarrow> pointer_ok (sendMessage_finish k sid res st)"
proof -
  assume ok: "pointer_ok st"
  have "pointer_ok (st\<lparr>sessions := map (\<lambda>s. if session_id s = sid
                    then s\<lparr>messages := messages s @ [reply_message k res],
                           updatedAt := reply_updated_at k\<rparr>
                    else s) (sessions st)\<rparr>)"
    by (rule pointer_ok_sessions_update [OF ok]) (simp add: ids_map_keep)
  then show ?thesis
    by (rule pointer_ok_flags) (simp_all add: sendMessage_finish_def)
qed

lemma pointer_ok_status: "pointer_ok st \<Longrightarrow> pointer_ok (setChatStatus s st)"
  by (erule pointer_ok_flags) (simp_all add: setChatStatus_def)

lemma pointer_ok_switch:
  "i \<in> set (session_ids st) \<Longrightarrow> pointer_ok (switchSession i st)"
  by (simp add: switchSession_def pointer_ok_def session_ids_def)

lemma pointer_ok_mount: "pointer_ok (load_on_mount stored now new_id st)"
  by (simp add: load_on_mount_def pointer_ok_def session_ids_def split: list.splits)

lemma pointer_ok_run:
  "pointer_ok (latest h) \<Longrightarrow> admissible_run acts h \<Longrightarrow> pointer_ok (latest (run acts h))"
proof (induction acts arbitrary: h)
  case Nil
  then show ?case by simp
next
  case (Cons a acts)
  have "pointer_ok (latest (step a h)) \<and> admissible_run acts (step a h)"
    using Cons.prems
    by (cases a)
       (simp_all add: pointer_ok_create pointer_ok_switch pointer_ok_delete pointer_ok_rename
          pointer_ok_star pointer_ok_clear pointer_ok_start pointer_ok_status pointer_ok_finish
          split: option.splits)
  then show ?case using Cons.IH by simp
qed





subsection \<open>The guard of sendMessage\<close>




subsection \<open>The active-session pointer\<close>

text \<open>
  C5, as the code has it. \<open>switchSession\<close> stores the id it is given without looking
  it up, and \<open>deleteSession\<close> compares the deleted id with the pointer of the render
  that made it, so the pointer can name an id that is not in the collection. In every
  state reached from the initial load by actions in which \<open>switchSession\<close> is given ids
  of the collection and \<open>deleteSession\<close> is called on a render that shows the pointer
  as it is, the pointer is null or the id of a session of the collection. And when
  \<open>deleteSession\<close> removes the session that its render shows as active, the collection
  it leaves is not empty and the pointer is the id of its first session, in that same
  transition.
\<close>

theorem pointer_invariant:
  "(admissible_run acts (mounted stored now new_id) \<longrightarrow>
      pointer_ok (latest (run acts (mounted stored now new_id))))
   \<and> (currentSessionId r = Some i \<longrightarrow>
        (case sessions (deleteSession r now' id' i st) of
           [] \<Rightarrow> False
         | first # rest \<Rightarrow>
             currentSessionId (deleteSession r now' id' i st) = Some (session_id first)))"
proof -
  have "pointer_ok (latest (mounted stored now new_id))"
    by (simp add: mounted_def pointer_ok_mount)
  then have a: "admissible_run acts (mounted stored now new_id) \<longrightarrow>
      pointer_ok (latest (run acts (mounted stored now new_id)))"
    using pointer_ok_run by blast
  have b: "currentSessionId r = Some i \<longrightarrow>
        (case sessions (deleteSession r now' id' i st) of
           [] \<Rightarrow> False
         | first # rest \<Rightarrow>
             currentSessionId (deleteSession r now' id' i st) = Some (session_id first))"
    by (cases "filter (\<lambda>s. session_id s \<noteq> i) (sessions st)")
       (simp_all add: deleteSession_def)
  from a b show ?thesis by blast
qed

theorem pointer_invariant_witness:
  "admissible_run [Render, SwitchSession ''s0'', Render, DeleteSession ''t5'' ''s9'' ''s0'']
     (mounted [example_session, createEmptySession ''t0'' ''s0''] ''t4'' ''s8'')
   \<and> pointer_ok (latest (run [Render, SwitchSession ''s0'', Render, DeleteSession ''t5'' ''s9'' ''s0'']
        (mounted [example_session, createEmptySession ''t0'' ''s0''] ''t4'' ''s8'')))
   \<and> currentSessionId (latest (run [Render, SwitchSession ''s0'', Render, DeleteSession ''t5'' ''s9'' ''s0'']
        (mounted [example_session, createEmptySession ''t0'' ''s0''] ''t4'' ''s8''))) = Some ''s1''
   \<and> currentSessionId example_state = Some ''s1''
   \<and> sessions (deleteSession example_state ''t5'' ''s9'' ''s1'' example_state)
       = [createEmptySession ''t0'' ''s0'']
   \<and> currentSessionId (deleteSession example_state ''t5'' ''s9'' ''s1'' example_state) = Some ''s0''"
proof -
  have c: "admissible_run [Render, SwitchSession ''s0'', Render, DeleteSession ''t5'' ''s9'' ''s0'']
     (mounted [example_session, createEmptySession ''t0'' ''s0''] ''t4'' ''s8'')"
    by (simp add: mounted_def load_on_mount_def initial_state_def example_session_def
        createEmptySession_def session_ids_def switchSession_def)
  have p: "currentSessionId example_state = Some ''s1''"
    by (simp add: example_state_def)
  note w = pointer_invariant [where acts = "[Render, SwitchSession ''s0'', Render, DeleteSession ''t5'' ''s9'' ''s0'']"
      and stored = "[example_session, createEmptySession ''t0'' ''s0'']" and now = "''t4''"
      and new_id = "''s8''" and r = example_state and i = "''s1''" and now' = "''t5''"
      and id' = "''s9''" and st = example_state]
  from w c have one: "pointer_ok (latest (run [Render, SwitchSession ''s0'', Render, DeleteSession ''t5'' ''s9'' ''s0'']
        (mounted [example_session, createEmptySession ''t0'' ''s0''] ''t4'' ''s8'')))"
    by blast
  have two: "currentSessionId (latest (run [Render, SwitchSession ''s0'', Render, DeleteSession ''t5'' ''s9'' ''s0'']
        (mounted [example_session, createEmptySession ''t0'' ''s0''] ''t4'' ''s8''))) = Some ''s1''"
    by (simp add: mounted_def load_on_mount_def initial_state_def example_session_def
        createEmptySession_def switchSession_def deleteSession_def)
  have three: "sessions (deleteSession example_state ''t5'' ''s9'' ''s1'' example_state)
       = [createEmptySession ''t0'' ''s0'']
     \<and> currentSessionId (deleteSession example_state ''t5'' ''s9'' ''s1'' example_state) = Some ''s0''"
    using w p
    by (simp add: example_state_def example_session_def createEmptySession_def deleteSession_def)
  from c one two p three show ?thesis by blast
qed

text \<open>
  C5 as stated fails in two ways. After the initial load of an empty storage,
  \<open>switchSession\<close> with an id that no session has leaves the pointer on that id. And
  with sessions \<open>s1\<close> (active) and \<open>s0\<close>, \<open>switchSession\<close> to \<open>s0\<close> followed by
  \<open>deleteSession\<close> of \<open>s0\<close> on the same render (whose pointer is still \<open>s1\<close>) removes
  the active session and leaves the pointer on \<open>s0\<close>, which is gone.
\<close>

theorem pointer_dangling_cex:
  "\<not> pointer_ok (latest (run [Render, SwitchSession ''ghost''] (mounted [] ''t0'' ''s1'')))
   \<and> session_ids (latest (run [Render, SwitchSession ''s0'', DeleteSession ''t5'' ''s9'' ''s0'']
        (mounted [example_session, createEmptySession ''t0'' ''s0''] ''t4'' ''s8''))) = [''s1'']
   \<and> currentSessionId (latest (run [Render, SwitchSession ''s0'', DeleteSession ''t5'' ''s9'' ''s0'']
        (mounted [example_session, createEmptySession ''t0'' ''s0''] ''t4'' ''s8''))) = Some ''s0''
   \<and> \<not> pointer_ok (latest (run [Render, SwitchSession ''s0'', DeleteSession ''t5'' ''s9'' ''s0'']
        (mounted [example_session, createEmptySession ''t0'' ''s0''] ''t4'' ''s8'')))"
  by (simp add: mounted_def switchSession_def deleteSession_def load_on_mount_def
      initial_state_def pointer_ok_def session_ids_def createEmptySession_def example_session_def)

subsection \<open>Deleting the only session\<close>

text \<open>
  C8. When the collection holds exactly one session, \<open>deleteSession\<close> with that
  session's id, on whatever render it is called, leaves exactly one session: the one
  \<open>createEmptySession\<close> has just made (the fresh id, the title \<open>New Chat\<close>, no messages,
  both timestamps the current time), and it is the active one.
\<close>

theorem delete_sole_session:
  "sessions st = [s] \<Longrightarrow>
     sessions (deleteSession r now new_id (session_id s) st) = [createEmptySession now new_id]
     \<and> createEmptySession now new_id =
         \<lparr>session_id = new_id, title = ''New Chat'', messages = [],
          createdAt = now, updatedAt = now, starred = None\<rparr>
     \<and> messages (createEmptySession now new_id) = []
     \<and> session_id (createEmptySession now new_id) = new_id
     \<and> currentSessionId (deleteSession r now new_id (session_id s) st) = Some new_id"
  by (simp add: deleteSession_def createEmptySession_def)

theorem delete_sole_session_witness:
  "sessions sole_state = [example_session]
   \<and> sessions (deleteSession sole_state ''t5'' ''s9'' ''s1'' sole_state) =
       [\<lparr>session_id = ''s9'', title = ''New Chat'', messages = [],
         createdAt = ''t5'', updatedAt = ''t5'', starred = None\<rparr>]
   \<and> currentSessionId (deleteSession sole_state ''t5'' ''s9'' ''s1'' sole_state) = Some ''s9''"
proof -
  have s: "sessions sole_state = [example_session]"
    by (simp add: sole_state_def)
  have i: "session_id example_session = ''s1''"
    by (simp add: example_session_def)
  from delete_sole_session [OF s, of sole_state "''t5''" "''s9''"] s i show ?thesis
    by simp
qed

subsection \<open>The guard of createNewSession\<close>

text \<open>
  C9, as the code has it. The guard of \<open>createNewSession\<close> looks at the render that
  made the callback: if the active session of that render has no messages the call
  changes nothing; otherwise it puts a new empty session in front of the collection and
  makes it active. With a re-render after each call, consecutive calls on an up-to-date
  hook do what the first of them does (the later ones find the empty session active
  and are no-ops), and from any hook such a run never adds more than one session, so
  never two empty sessions one after the other.
\<close>

theorem create_guard:
  "(current_session r = Some cur \<and> messages cur = [] \<longrightarrow> createNewSession r now new_id st = st)
   \<and> (\<not> (\<exists>c. current_session r = Some c \<and> messages c = []) \<longrightarrow>
        createNewSession r now new_id st =
          st\<lparr>sessions := createEmptySession now new_id # sessions st,
             currentSessionId := Some new_id\<rparr>
        \<and> messages (createEmptySession now new_id) = [])
   \<and> (rendered h = latest h \<longrightarrow>
        create_and_render ((now, new_id) # calls) h =
          step Render (step (CreateNewSession now new_id) h))
   \<and> length (sessions (latest (create_and_render calls' h'))) \<le> length (sessions (latest h')) + 1"
proof -
  have a: "current_session r = Some cur \<and> messages cur = [] \<longrightarrow> createNewSession r now new_id st = st"
    by (simp add: createNewSession_def)
  have b: "\<not> (\<exists>c. current_session r = Some c \<and> messages c = []) \<longrightarrow>
        createNewSession r now new_id st =
          st\<lparr>sessions := createEmptySession now new_id # sessions st,
             currentSessionId := Some new_id\<rparr>
        \<and> messages (createEmptySession now new_id) = []"
    by (auto simp: createNewSession_def createEmptySession_def split: option.splits)
  have c: "rendered h = latest h \<longrightarrow>
        create_and_render ((now, new_id) # calls) h =
          step Render (step (CreateNewSession now new_id) h)"
    using create_and_render_first by blast
  from a b c create_and_render_length [of calls' h'] show ?thesis by blast
qed

theorem create_guard_witness:
  "rendered example_hook = latest example_hook
   \<and> sessions (latest (create_and_render [(''t5'', ''s5''), (''t6'', ''s6''), (''t7'', ''s7'')] example_hook))
       = createEmptySession ''t5'' ''s5'' # sessions example_state
   \<and> currentSessionId (latest (create_and_render [(''t5'', ''s5''), (''t6'', ''s6''), (''t7'', ''s7'')] example_hook))
       = Some ''s5''
   \<and> current_session (createNewSession example_state ''t5'' ''s5'' example_state)
       = Some (createEmptySession ''t5'' ''s5'')
   \<and> createNewSession (createNewSession example_state ''t5'' ''s5'' example_state) ''t6'' ''s6''
        (createNewSession example_state ''t5'' ''s5'' example_state)
       = createNewSession example_state ''t5'' ''s5'' example_state"
proof -
  have up: "rendered example_hook = latest example_hook"
    by (simp add: example_hook_def)
  have cur: "current_session (createNewSession example_state ''t5'' ''s5'' example_state)
       = Some (createEmptySession ''t5'' ''s5'')"
    by (simp add: example_state_def example_session_def example_message_def
        createNewSession_def current_session_def createEmptySession_def)
  have em: "messages (createEmptySession ''t5'' ''s5'') = []"
    by (simp add: createEmptySession_def)
  note w1 = create_guard [where r = example_state and st = example_state and now = "''t5''"
      and new_id = "''s5''" and h = example_hook
      and calls = "[(''t6'', ''s6''), (''t7'', ''s7'')]"]
  note w2 = create_guard [where r = "createNewSession example_state ''t5'' ''s5'' example_state"
      and st = "createNewSession example_state ''t5'' ''s5'' example_state"
      and cur = "createEmptySession ''t5'' ''s5''" and now = "''t6''" and new_id = "''s6''"]
  from w1 up have run: "create_and_render [(''t5'', ''s5''), (''t6'', ''s6''), (''t7'', ''s7'')] example_hook
      = step Render (step (CreateNewSession ''t5'' ''s5'') example_hook)"
    by blast
  have one: "sessions (latest (create_and_render [(''t5'', ''s5''), (''t6'', ''s6''), (''t7'', ''s7'')] example_hook))
       = createEmptySession ''t5'' ''s5'' # sessions example_state
     \<and> currentSessionId (latest (create_and_render [(''t5'', ''s5''), (''t6'', ''s6''), (''t7'', ''s7'')] example_hook))
       = Some ''s5''"
    by (simp add: run example_hook_def example_state_def example_session_def example_message_def
        createNewSession_def current_session_def createEmptySession_def)
  from w2 cur em have two: "createNewSession (createNewSession example_state ''t5'' ''s5'' example_state) ''t6'' ''s6''
        (createNewSession example_state ''t5'' ''s5'' example_state)
       = createNewSession example_state ''t5'' ''s5'' example_state"
    by blast
  from up one cur two show ?thesis by blast
qed

text \<open>
  C9 as stated fails for consecutive calls on one render: each of them reads the same
  rendered state, whose active session has a message, and each puts an empty session
  in front.
\<close>

theorem create_guard_cex:
  "sessions (latest (create_on_one_render [(''t5'', ''s5''), (''t6'', ''s6'')] example_hook)) =
     [createEmptySession ''t6'' ''s6'', createEmptySession ''t5'' ''s5'',
      example_session, createEmptySession ''t0'' ''s0'']
   \<and> messages (createEmptySession ''t6'' ''s6'') = []
   \<and> messages (createEmptySession ''t5'' ''s5'') = []"
  by (simp add: example_hook_def example_state_def example_session_def example_message_def
      createNewSession_def current_session_def createEmptySession_def)

subsection \<open>The frame of clearCurrentSession\<close>



section \<open>The completion client\<close>

subsection \<open>Helper lemmas\<close>

lemmas client_defs =
  sendChatMessage_def Let_def doFetch_def ok_def error_body_message_def is_failed_tool_call_def
  opt_prop_def opt_index_def js_or_def js_String_def retry_without_tools_def notify_def
  checkContent_def choice_content_def first_choice_def trim_def is_js_space_def
  handleHttpError_def after_first_ok_def tool_call_path_def parse_search_query_def
  search_phase_def searchWeb_def second_call_def search_unavailable_def empty_response_def
  missing_api_key_def

lemmas example_defs =
  retry_env_def failed_generation_response_def answer_response_def server_error_response_def
  search_env_def tool_call_response_def tool_call_body_def tool_call_json_def example_msgs_def

lemma statuses_append: "statuses (xs @ ys) = statuses xs @ statuses ys"
  by (induction xs rule: statuses.induct) simp_all

lemma completion_calls_append:
  "completion_calls (xs @ ys) = completion_calls xs @ completion_calls ys"
  by (induction xs rule: completion_calls.induct) simp_all

lemma statuses_notify: "statuses (notify cb s) = (if cb then [s] else [])"
  by (simp add: notify_def)

lemma calls_notify: "completion_calls (notify cb s) = []"
  by (simp add: notify_def)

lemma searchWeb_quiet:
  "statuses (fst (searchWeb env q)) = [] \<and> completion_calls (fst (searchWeb env q)) = []"
  by (simp add: searchWeb_def Let_def split: option.splits fetch_result.splits)

lemma search_phase_events: "fst (search_phase env q) = fst (searchWeb env q)"
  by (simp add: search_phase_def split: prod.splits sum.splits option.splits json.splits)

lemma search_phase_quiet:
  "statuses (fst (search_phase env q)) = [] \<and> completion_calls (fst (search_phase env q)) = []"
  by (simp add: search_phase_events searchWeb_quiet)

lemma second_call_events:
  "fst (second_call env m k src) = [CompletionCall (doFetch m k False)]"
  by (simp add: second_call_def Let_def split: fetch_result.splits sum.splits)

lemma retry_events:
  "fst (retry_without_tools env cb m k) = notify cb thinking @ [CompletionCall (doFetch m k False)]"
  by (simp add: retry_without_tools_def Let_def split: fetch_result.splits sum.splits)

lemma second_callD:
  "second_call env m k src = (evs, res) \<Longrightarrow> evs = [CompletionCall (doFetch m k False)]"
  using second_call_events [of env m k src] by simp

lemma search_phaseD:
  "search_phase env q = (evs, c, src) \<Longrightarrow> evs = fst (searchWeb env q)"
  using search_phase_events [of env q] by simp

lemma tool_call_path_events:
  "fst (tool_call_path env cb m k ch) = []
   \<or> (\<exists>q m'. fst (tool_call_path env cb m k ch) =
         notify cb searching @ fst (searchWeb env q) @ notify cb thinking @
         [CompletionCall (doFetch m' k False)])"
  by (auto simp: tool_call_path_def Let_def split: option.splits prod.splits
      dest!: second_callD search_phaseD)

lemma after_first_ok_events:
  "fst (after_first_ok env cb m k r) = []
   \<or> (\<exists>q m'. fst (after_first_ok env cb m k r) =
         notify cb searching @ fst (searchWeb env q) @ notify cb thinking @
         [CompletionCall (doFetch m' k False)])"
  using tool_call_path_events [of env cb m k]
  by (auto simp: after_first_ok_def Let_def split: sum.splits)

lemma after_first_ok_statuses:
  "statuses (fst (after_first_ok env cb m k r)) = []
   \<or> statuses (fst (after_first_ok env cb m k r)) = (if cb then [searching, thinking] else [])"
  using after_first_ok_events [of env cb m k r]
  by (auto simp: statuses_append statuses_notify searchWeb_quiet)

lemma after_first_ok_calls:
  "length (completion_calls (fst (after_first_ok env cb m k r))) \<le> 1"
  using after_first_ok_events [of env cb m k r]
  by (auto simp: completion_calls_append calls_notify searchWeb_quiet)

lemma send_statuses_cases:
  "statuses (fst (sendChatMessage env cb h)) = []
   \<or> statuses (fst (sendChatMessage env cb h)) = [thinking]
   \<or> statuses (fst (sendChatMessage env cb h)) = [thinking, thinking]
   \<or> statuses (fst (sendChatMessage env cb h)) = [thinking, searching, thinking]"
proof (cases "VITE_GROQ_API_KEY env")
  case None
  then show ?thesis by (simp add: sendChatMessage_def)
next
  case (Some k)
  let ?m = "ChatMsg system (buildSystemPrompt (dateStr env)) # h"
  show ?thesis
  proof (cases "k = [] \<or> k = ''your_groq_api_key_here''")
    case True
    with Some show ?thesis by (auto simp: sendChatMessage_def)
  next
    case False
    show ?thesis
    proof (cases "fetch_completion env (doFetch ?m k True)")
      case (Rejected e)
      with Some False show ?thesis
        by (simp add: sendChatMessage_def Let_def statuses_append statuses_notify)
    next
      case (Resolved r)
      show ?thesis
      proof (cases "ok r")
        case True
        obtain evs res where a: "after_first_ok env cb ?m k r = (evs, res)"
          by (cases "after_first_ok env cb ?m k r")
        have "statuses evs = [] \<or> statuses evs = (if cb then [searching, thinking] else [])"
          using after_first_ok_statuses [of env cb ?m k r] by (simp add: a)
        with Some False Resolved True a show ?thesis
          by (auto simp: sendChatMessage_def Let_def statuses_append statuses_notify)
      next
        case nok: False
        obtain evs res where a: "retry_without_tools env cb ?m k = (evs, res)"
          by (cases "retry_without_tools env cb ?m k")
        have "statuses evs = (if cb then [thinking] else [])"
          using retry_events [of env cb ?m k] by (simp add: a statuses_append statuses_notify)
        with Some False Resolved nok a show ?thesis
          by (auto simp: sendChatMessage_def Let_def statuses_append statuses_notify)
      qed
    qed
  qed
qed


lemma send_calls_bound:
  "length (completion_calls (fst (sendChatMessage env cb h))) \<le> 2"
proof (cases "VITE_GROQ_API_KEY env")
  case None
  then show ?thesis by (simp add: sendChatMessage_def)
next
  case (Some k)
  let ?m = "ChatMsg system (buildSystemPrompt (dateStr env)) # h"
  show ?thesis
  proof (cases "k = [] \<or> k = ''your_groq_api_key_here''")
    case True
    with Some show ?thesis by (auto simp: sendChatMessage_def)
  next
    case False
    show ?thesis
    proof (cases "fetch_completion env (doFetch ?m k True)")
      case (Rejected e)
      with Some False show ?thesis
        by (simp add: sendChatMessage_def Let_def completion_calls_append calls_notify)
    next
      case (Resolved r)
      obtain evs res where a: "after_first_ok env cb ?m k r = (evs, res)"
        by (cases "after_first_ok env cb ?m k r")
      have la: "length (completion_calls evs) \<le> 1"
        using after_first_ok_calls [of env cb ?m k r] by (simp add: a)
      obtain evs' res' where b: "retry_without_tools env cb ?m k = (evs', res')"
        by (cases "retry_without_tools env cb ?m k")
      have lb: "length (completion_calls evs') = 1"
        using retry_events [of env cb ?m k] by (simp add: b completion_calls_append calls_notify)
      from Some False Resolved a b la lb show ?thesis
        by (auto simp: sendChatMessage_def Let_def completion_calls_append calls_notify)
    qed
  qed
qed

lemma send_events_last:
  "fst (sendChatMessage env cb h) = []
   \<or> (\<exists>r. last (fst (sendChatMessage env cb h)) = CompletionCall r)"
proof (cases "VITE_GROQ_API_KEY env")
  case None
  then show ?thesis by (simp add: sendChatMessage_def)
next
  case (Some k)
  let ?m = "ChatMsg system (buildSystemPrompt (dateStr env)) # h"
  show ?thesis
  proof (cases "k = [] \<or> k = ''your_groq_api_key_here''")
    case True
    with Some show ?thesis by (auto simp: sendChatMessage_def)
  next
    case False
    show ?thesis
    proof (cases "fetch_completion env (doFetch ?m k True)")
      case (Rejected e)
      with Some False show ?thesis
        by (simp add: sendChatMessage_def Let_def)
    next
      case (Resolved r)
      obtain evs res where a: "after_first_ok env cb ?m k r = (evs, res)"
        by (cases "after_first_ok env cb ?m k r")
      have la: "evs = [] \<or> (\<exists>q. last evs = CompletionCall q)"
        using after_first_ok_events [of env cb ?m k r] by (auto simp: a)
      obtain evs' res' where b: "retry_without_tools env cb ?m k = (evs', res')"
        by (cases "retry_without_tools env cb ?m k")
      have lb: "evs' \<noteq> [] \<and> last evs' = CompletionCall (doFetch ?m k False)"
        using retry_events [of env cb ?m k] by (simp add: b)
      from Some False Resolved a b la lb show ?thesis
        by (auto simp: sendChatMessage_def Let_def)
    qed
  qed
qed

lemma send_events_first:
  assumes "VITE_GROQ_API_KEY env = Some k" "k \<noteq> []" "k \<noteq> ''your_groq_api_key_here''"
  shows "\<exists>rest. fst (sendChatMessage env cb h) =
           notify cb thinking @
           CompletionCall (doFetch (ChatMsg system (buildSystemPrompt (dateStr env)) # h) k True) # rest"
  using assms
  by (auto simp: sendChatMessage_def Let_def split: fetch_result.splits prod.splits)

lemma retry_success_iff:
  "(snd (retry_without_tools env cb m k) = Inr c) =
   (\<exists>retry d. fetch_completion env (doFetch m k False) = Resolved retry \<and> ok retry \<and>
            json_body retry = Inr d \<and> choice_content (first_choice d) = Some (JStr c) \<and> trim c \<noteq> [])"
  by (auto simp: retry_without_tools_def Let_def checkContent_def
      split: fetch_result.splits sum.splits option.splits json.splits if_splits)

lemma retry_http_error:
  "fetch_completion env (doFetch m k False) = Resolved retry \<Longrightarrow> \<not> ok retry \<Longrightarrow>
   snd (retry_without_tools env cb m k) = Inl (handleHttpError retry)"
  by (simp add: retry_without_tools_def Let_def)

lemma not_ok_400: "status r = 400 \<Longrightarrow> \<not> ok r"
  by (simp add: ok_def)

lemma send_on_failed_generation:
  assumes "VITE_GROQ_API_KEY env = Some k" "k \<noteq> []" "k \<noteq> ''your_groq_api_key_here''"
    and "fetch_completion env (doFetch (ChatMsg system (buildSystemPrompt (dateStr env)) # h) k True)
           = Resolved first"
    and "status first = 400" "is_failed_tool_call (error_body_message first)"
  shows "sendChatMessage env cb h =
           (notify cb thinking @
            [CompletionCall (doFetch (ChatMsg system (buildSystemPrompt (dateStr env)) # h) k True)] @
            fst (retry_without_tools env cb (ChatMsg system (buildSystemPrompt (dateStr env)) # h) k),
            snd (retry_without_tools env cb (ChatMsg system (buildSystemPrompt (dateStr env)) # h) k))"
  using assms by (simp add: sendChatMessage_def Let_def not_ok_400 split: prod.splits)

lemma second_call_success:
  "fetch_completion env (doFetch m k False) = Resolved retry \<Longrightarrow> ok retry \<Longrightarrow> json_body retry = Inr body \<Longrightarrow>
   choice_content (first_choice body) = Some (JStr c) \<Longrightarrow> trim c \<noteq> [] \<Longrightarrow>
   snd (second_call env m k src) = Inr (c @ src)"
  by (simp add: second_call_def Let_def checkContent_def)

lemma search_phase_failed:
  "snd (searchWeb env q) = Inl e \<Longrightarrow>
   search_phase env q = (fst (searchWeb env q), search_unavailable env, [])"
  by (cases "searchWeb env q") (simp add: search_phase_def)

lemma send_on_tool_call:
  assumes "VITE_GROQ_API_KEY env = Some k" "k \<noteq> []" "k \<noteq> ''your_groq_api_key_here''"
    and "msgs = ChatMsg system (buildSystemPrompt (dateStr env)) # h"
    and "fetch_completion env (doFetch msgs k True) = Resolved first" "ok first" "json_body first = Inr d"
    and "opt_prop (first_choice d) ''finish_reason'' = Some (JStr ''tool_calls'')"
  shows "sendChatMessage env cb h =
           (notify cb thinking @ [CompletionCall (doFetch msgs k True)] @
            fst (tool_call_path env cb msgs k (first_choice d)),
            snd (tool_call_path env cb msgs k (first_choice d)))"
  using assms by (simp add: sendChatMessage_def after_first_ok_def Let_def split: prod.splits)

lemma tool_call_path_search_failed:
  assumes "opt_index (opt_prop (opt_prop ch ''message'') ''tool_calls'') 0 = Some tc"
    and "truthy (Some tc)"
    and "parse_search_query env tc = Some q"
    and "snd (searchWeb env q) = Inl e"
  shows "tool_call_path env cb msgs k ch =
           (notify cb searching @ fst (searchWeb env q) @ notify cb thinking @
            [CompletionCall (doFetch (msgs @ [AssistantToolCalls (opt_prop (opt_prop ch ''message'') ''tool_calls''),
                ToolResult (search_unavailable env) (get_prop tc ''id'')]) k False)],
            snd (second_call env (msgs @ [AssistantToolCalls (opt_prop (opt_prop ch ''message'') ''tool_calls''),
                ToolResult (search_unavailable env) (get_prop tc ''id'')]) k []))"
proof -
  let ?msgs2 = "msgs @ [AssistantToolCalls (opt_prop (opt_prop ch ''message'') ''tool_calls''),
                ToolResult (search_unavailable env) (get_prop tc ''id'')]"
  obtain evs res where sc: "second_call env ?msgs2 k [] = (evs, res)"
    by (cases "second_call env ?msgs2 k []")
  have evs: "evs = [CompletionCall (doFetch ?msgs2 k False)]"
    using sc by (rule second_callD)
  show ?thesis
    using assms sc evs
    by (simp add: tool_call_path_def Let_def search_phase_failed)
qed

subsection \<open>The status notifications of a send\<close>

text \<open>
  C2, as the code has it. The status notifications of one \<open>sendChatMessage\<close> are, in
  order, one of four sequences: none (the API key is not configured, or no callback was
  passed), \<open>thinking\<close>, \<open>thinking, thinking\<close> (the retry after the 400 of a failed
  tool-call generation notifies \<open>thinking\<close> again), or \<open>thinking, searching, thinking\<close>.
  The last thing a send does before it returns or throws is a completion request, never
  a notification; and with a callback and a configured key there is at least one
  notification.
\<close>

theorem status_sequences:
  "statuses (fst (sendChatMessage env cb h))
     \<in> {[], [thinking], [thinking, thinking], [thinking, searching, thinking]}
   \<and> (fst (sendChatMessage env cb h) = []
        \<or> (\<exists>r. last (fst (sendChatMessage env cb h)) = CompletionCall r))
   \<and> (cb \<and> VITE_GROQ_API_KEY env = Some k \<and> k \<noteq> [] \<and> k \<noteq> ''your_groq_api_key_here'' \<longrightarrow>
        statuses (fst (sendChatMessage env cb h)) \<noteq> [])"
proof -
  have "cb \<and> VITE_GROQ_API_KEY env = Some k \<and> k \<noteq> [] \<and> k \<noteq> ''your_groq_api_key_here'' \<longrightarrow>
        statuses (fst (sendChatMessage env cb h)) \<noteq> []"
  proof
    assume a: "cb \<and> VITE_GROQ_API_KEY env = Some k \<and> k \<noteq> [] \<and> k \<noteq> ''your_groq_api_key_here''"
    then obtain rest where "fst (sendChatMessage env cb h) =
           notify cb thinking @
           CompletionCall (doFetch (ChatMsg system (buildSystemPrompt (dateStr env)) # h) k True) # rest"
      using send_events_first [of env k cb h] by blast
    with a show "statuses (fst (sendChatMessage env cb h)) \<noteq> []"
      by (simp add: notify_def)
  qed
  with send_statuses_cases [of env cb h] send_events_last [of env cb h] show ?thesis
    by auto
qed

theorem status_sequences_witness:
  "VITE_GROQ_API_KEY search_env = Some ''gsk_live''
   \<and> statuses (fst (sendChatMessage search_env True [ChatMsg user ''hi''])) =
     [thinking, searching, thinking]
   \<and> last (fst (sendChatMessage search_env True [ChatMsg user ''hi''])) =
       CompletionCall (doFetch
         (example_msgs @ [AssistantToolCalls (Some (JArr [tool_call_json])),
                          ToolResult (search_unavailable search_env) (Some (JStr ''call_1''))])
         ''gsk_live'' False)"
  using status_sequences [of search_env True "[ChatMsg user ''hi'']" "''gsk_live''"]
  by (simp add: client_defs example_defs)

text \<open>
  C2 as stated fails on the retry path: the first request is answered with the 400 of
  a failed tool-call generation, and the notifications are \<open>thinking, thinking\<close>.
\<close>

theorem status_sequences_cex:
  "statuses (fst (sendChatMessage (retry_env (answer_response ''Answer'')) True [ChatMsg user ''hi'']))
     = [thinking, thinking]"
  by (simp add: client_defs example_defs)

subsection \<open>The retry without tools\<close>

text \<open>
  C1, as the code has it. When the first completion request is answered with HTTP
  status 400 and the message of the error body contains \<open>Failed to call a function\<close> or
  \<open>failed_generation\<close>, the client notifies \<open>thinking\<close> and sends exactly one more
  request, with the same messages and key and without the tool declaration, so two
  requests in all and no search. The send
  returns a text exactly when that retry is answered with a success whose content is a
  string that is not blank, and the text is that content as it is; when the retry is
  answered with an HTTP error the send fails with the error \<open>handleHttpError\<close> makes of
  it. No send issues more than two requests, and a 400 on the second request of the
  tool-call path is an error like any other: it is not retried.
\<close>

theorem failed_generation_retry:
  assumes "VITE_GROQ_API_KEY env = Some k" "k \<noteq> []" "k \<noteq> ''your_groq_api_key_here''"
    and "msgs = ChatMsg system (buildSystemPrompt (dateStr env)) # h"
    and "fetch_completion env (doFetch msgs k True) = Resolved first"
    and "status first = 400" "is_failed_tool_call (error_body_message first)"
  shows "fst (sendChatMessage env cb h) =
           notify cb thinking @ [CompletionCall (doFetch msgs k True)] @
           notify cb thinking @ [CompletionCall (doFetch msgs k False)]
   \<and> completion_calls (fst (sendChatMessage env cb h)) = [doFetch msgs k True, doFetch msgs k False]
   \<and> ((snd (sendChatMessage env cb h) = Inr c) =
        (\<exists>retry d. fetch_completion env (doFetch msgs k False) = Resolved retry \<and> ok retry \<and>
            json_body retry = Inr d \<and> choice_content (first_choice d) = Some (JStr c) \<and> trim c \<noteq> []))
   \<and> (fetch_completion env (doFetch msgs k False) = Resolved retry \<and> \<not> ok retry \<longrightarrow>
        snd (sendChatMessage env cb h) = Inl (handleHttpError retry))
   \<and> length (completion_calls (fst (sendChatMessage env' cb' h'))) \<le> 2
   \<and> (fetch_completion env' (doFetch m' k' False) = Resolved r' \<and> status r' = 400 \<longrightarrow>
        second_call env' m' k' src = ([CompletionCall (doFetch m' k' False)], Inl (handleHttpError r')))"
proof -
  have s: "sendChatMessage env cb h =
           (notify cb thinking @ [CompletionCall (doFetch msgs k True)] @
            fst (retry_without_tools env cb msgs k),
            snd (retry_without_tools env cb msgs k))"
    using assms send_on_failed_generation [of env k h first cb] by simp
  have t: "fst (sendChatMessage env cb h) =
           notify cb thinking @ [CompletionCall (doFetch msgs k True)] @
           notify cb thinking @ [CompletionCall (doFetch msgs k False)]"
    by (simp add: s retry_events)
  have a: "completion_calls (fst (sendChatMessage env cb h)) = [doFetch msgs k True, doFetch msgs k False]"
    by (simp add: s retry_events completion_calls_append calls_notify)
  have b: "(snd (sendChatMessage env cb h) = Inr c) =
        (\<exists>retry d. fetch_completion env (doFetch msgs k False) = Resolved retry \<and> ok retry \<and>
            json_body retry = Inr d \<and> choice_content (first_choice d) = Some (JStr c) \<and> trim c \<noteq> [])"
    by (simp add: s retry_success_iff)
  have c: "fetch_completion env (doFetch msgs k False) = Resolved retry \<and> \<not> ok retry \<longrightarrow>
        snd (sendChatMessage env cb h) = Inl (handleHttpError retry)"
    by (simp add: s retry_http_error)
  have d: "fetch_completion env' (doFetch m' k' False) = Resolved r' \<and> status r' = 400 \<longrightarrow>
        second_call env' m' k' src = ([CompletionCall (doFetch m' k' False)], Inl (handleHttpError r'))"
    by (simp add: second_call_def Let_def not_ok_400)
  from t a b c d send_calls_bound [of env' cb' h'] show ?thesis by blast
qed


theorem failed_generation_retry_witness:
  "fetch_completion (retry_env (answer_response ''Answer'')) (doFetch example_msgs ''gsk_live'' True)
     = Resolved failed_generation_response
   \<and> status failed_generation_response = 400
   \<and> is_failed_tool_call (error_body_message failed_generation_response)
   \<and> fst (sendChatMessage (retry_env (answer_response ''Answer'')) True [ChatMsg user ''hi'']) =
       [StatusChange thinking,
        CompletionCall (doFetch example_msgs ''gsk_live'' True),
        StatusChange thinking,
        CompletionCall (doFetch example_msgs ''gsk_live'' False)]
   \<and> snd (sendChatMessage (retry_env (answer_response ''Answer'')) True [ChatMsg user ''hi'']) =
       Inr ''Answer''"
proof -
  let ?env = "retry_env (answer_response ''Answer'')"
  have key: "VITE_GROQ_API_KEY ?env = Some ''gsk_live''"
    by (simp add: retry_env_def)
  have k1: "''gsk_live'' \<noteq> []" and k2: "''gsk_live'' \<noteq> ''your_groq_api_key_here''"
    by simp_all
  have m: "example_msgs = ChatMsg system (buildSystemPrompt (dateStr ?env)) # [ChatMsg user ''hi'']"
    by (simp add: example_msgs_def retry_env_def)
  have f: "fetch_completion ?env (doFetch example_msgs ''gsk_live'' True)
             = Resolved failed_generation_response"
    by (simp add: retry_env_def doFetch_def)
  have st: "status failed_generation_response = 400"
    by (simp add: failed_generation_response_def)
  have fg: "is_failed_tool_call (error_body_message failed_generation_response)"
    by (simp add: client_defs failed_generation_response_def)
  note w = failed_generation_retry [OF key k1 k2 m f st fg, where cb = True and c = "''Answer''"]
  have calls: "completion_calls (fst (sendChatMessage ?env True [ChatMsg user ''hi''])) =
      [doFetch example_msgs ''gsk_live'' True, doFetch example_msgs ''gsk_live'' False]"
    using w by blast
  have "\<exists>retry d. fetch_completion ?env (doFetch example_msgs ''gsk_live'' False) = Resolved retry \<and>
          ok retry \<and> json_body retry = Inr d \<and>
          choice_content (first_choice d) = Some (JStr ''Answer'') \<and> trim ''Answer'' \<noteq> []"
    by (simp add: client_defs example_defs)
  with w have res: "snd (sendChatMessage ?env True [ChatMsg user ''hi'']) = Inr ''Answer''"
    by blast
  from w have "fst (sendChatMessage ?env True [ChatMsg user ''hi'']) =
      notify True thinking @ [CompletionCall (doFetch example_msgs ''gsk_live'' True)] @
      notify True thinking @ [CompletionCall (doFetch example_msgs ''gsk_live'' False)]"
    by blast
  then have evs: "fst (sendChatMessage ?env True [ChatMsg user ''hi'']) =
       [StatusChange thinking,
        CompletionCall (doFetch example_msgs ''gsk_live'' True),
        StatusChange thinking,
        CompletionCall (doFetch example_msgs ''gsk_live'' False)]"
    by (simp add: notify_def)
  from f st fg res evs show ?thesis by simp
qed

text \<open>
  C1 as stated fails when the retry itself fails: the first request is answered with
  the 400 of a failed tool-call generation, the retry with status 500, and the send
  throws instead of returning a content.
\<close>

theorem failed_generation_retry_cex:
  "status failed_generation_response = 400
   \<and> is_failed_tool_call (error_body_message failed_generation_response)
   \<and> fetch_completion (retry_env server_error_response) (doFetch example_msgs ''gsk_live'' True)
       = Resolved failed_generation_response
   \<and> fetch_completion (retry_env server_error_response) (doFetch example_msgs ''gsk_live'' False)
       = Resolved server_error_response
   \<and> snd (sendChatMessage (retry_env server_error_response) True [ChatMsg user ''hi'']) =
       Inl (OpenAIError ''Groq is experiencing issues. Please try again shortly.'' (Some 500) None)"
  by (simp add: client_defs example_defs)

subsection \<open>The fallback when the search fails\<close>

text \<open>
  C4. On the tool-call path (the first response is a success with \<open>finish_reason\<close>
  \<open>tool_calls\<close>, a tool call and arguments that parse), when \<open>searchWeb\<close> throws,
  whatever it throws: the second completion request is still issued, its tool-result
  message carries the fallback payload (\<open>JSON.stringify\<close> of the object whose \<open>error\<close>
  is \<open>Web search unavailable. Answer from your training knowledge.\<close>) with the id of
  the tool call, and the outcome of the send is the outcome of that second
  request, with no citation block; in particular a second response with a content that
  is not blank makes the send return that content. A search key that is not configured
  is such a failure, thrown before any request to the search endpoint.
\<close>

theorem search_failure_fallback:
  assumes "VITE_GROQ_API_KEY env = Some k" "k \<noteq> []" "k \<noteq> ''your_groq_api_key_here''"
    and "msgs = ChatMsg system (buildSystemPrompt (dateStr env)) # h"
    and "fetch_completion env (doFetch msgs k True) = Resolved first" "ok first" "json_body first = Inr d"
    and "opt_prop (first_choice d) ''finish_reason'' = Some (JStr ''tool_calls'')"
    and "tcs = opt_prop (opt_prop (first_choice d) ''message'') ''tool_calls''"
    and "opt_index tcs 0 = Some tc" "truthy (Some tc)"
    and "parse_search_query env tc = Some q"
    and "snd (searchWeb env q) = Inl e"
    and "msgs2 = msgs @
           [AssistantToolCalls tcs,
            ToolResult
              (JSON_stringify env
                 (JObj [(''error'', JStr ''Web search unavailable. Answer from your training knowledge.'')]))
              (get_prop tc ''id'')]"
  shows "fst (sendChatMessage env cb h) =
           notify cb thinking @ [CompletionCall (doFetch msgs k True)] @
           notify cb searching @ fst (searchWeb env q) @ notify cb thinking @
           [CompletionCall (doFetch msgs2 k False)]
   \<and> snd (sendChatMessage env cb h) = snd (second_call env msgs2 k [])
   \<and> (fetch_completion env (doFetch msgs2 k False) = Resolved retry \<and> ok retry \<and> json_body retry = Inr body \<and>
        choice_content (first_choice body) = Some (JStr c) \<and> trim c \<noteq> [] \<longrightarrow>
        snd (sendChatMessage env cb h) = Inr c)
   \<and> (VITE_TAVILY_API_KEY env' = None \<longrightarrow>
        searchWeb env' q' = ([], Inl (JsError ''Tavily API key is not configured.'')))"
proof -
  have s: "sendChatMessage env cb h =
           (notify cb thinking @ [CompletionCall (doFetch msgs k True)] @
            fst (tool_call_path env cb msgs k (first_choice d)),
            snd (tool_call_path env cb msgs k (first_choice d)))"
    using assms(1-8) by (rule send_on_tool_call)
  have t: "tool_call_path env cb msgs k (first_choice d) =
           (notify cb searching @ fst (searchWeb env q) @ notify cb thinking @
            [CompletionCall (doFetch msgs2 k False)],
            snd (second_call env msgs2 k []))"
    using assms(10-13) tool_call_path_search_failed [of "first_choice d" tc env q e cb msgs k]
    by (simp add: assms(9) assms(14) search_unavailable_def)
  have a: "fst (sendChatMessage env cb h) =
           notify cb thinking @ [CompletionCall (doFetch msgs k True)] @
           notify cb searching @ fst (searchWeb env q) @ notify cb thinking @
           [CompletionCall (doFetch msgs2 k False)]"
    by (simp add: s t)
  have b: "snd (sendChatMessage env cb h) = snd (second_call env msgs2 k [])"
    by (simp add: s t)
  have c: "fetch_completion env (doFetch msgs2 k False) = Resolved retry \<and> ok retry \<and> json_body retry = Inr body \<and>
        choice_content (first_choice body) = Some (JStr c) \<and> trim c \<noteq> [] \<longrightarrow>
        snd (sendChatMessage env cb h) = Inr c"
    using second_call_success [of env msgs2 k retry body c "[]"] by (simp add: b)
  have d: "VITE_TAVILY_API_KEY env' = None \<longrightarrow>
        searchWeb env' q' = ([], Inl (JsError ''Tavily API key is not configured.''))"
    by (simp add: searchWeb_def)
  from a b c d show ?thesis by blast
qed


theorem search_failure_fallback_witness:
  "snd (searchWeb search_env (Some (JStr ''weather''))) =
     Inl (JsError ''Tavily API key is not configured.'')
   \<and> JSON_stringify search_env
         (JObj [(''error'', JStr ''Web search unavailable. Answer from your training knowledge.'')])
       = fallback_text
   \<and> fst (sendChatMessage search_env True [ChatMsg user ''hi'']) =
       [StatusChange thinking,
        CompletionCall (doFetch example_msgs ''gsk_live'' True),
        StatusChange searching,
        StatusChange thinking,
        CompletionCall (doFetch
          (example_msgs @ [AssistantToolCalls (Some (JArr [tool_call_json])),
                           ToolResult fallback_text (Some (JStr ''call_1''))])
          ''gsk_live'' False)]
   \<and> snd (sendChatMessage search_env True [ChatMsg user ''hi'']) = Inr ''Answer''"
proof -
  let ?msgs2 = "example_msgs @ [AssistantToolCalls (Some (JArr [tool_call_json])),
                           ToolResult fallback_text (Some (JStr ''call_1''))]"
  have key: "VITE_GROQ_API_KEY search_env = Some ''gsk_live''"
    by (simp add: search_env_def)
  have k1: "''gsk_live'' \<noteq> []" and k2: "''gsk_live'' \<noteq> ''your_groq_api_key_here''"
    by simp_all
  have m: "example_msgs = ChatMsg system (buildSystemPrompt (dateStr search_env)) # [ChatMsg user ''hi'']"
    by (simp add: example_msgs_def search_env_def)
  have f: "fetch_completion search_env (doFetch example_msgs ''gsk_live'' True)
             = Resolved tool_call_response"
    by (simp add: search_env_def doFetch_def)
  have okf: "ok tool_call_response"
    by (simp add: ok_def tool_call_response_def)
  have b: "json_body tool_call_response = Inr tool_call_body"
    by (simp add: tool_call_response_def)
  have fr: "opt_prop (first_choice tool_call_body) ''finish_reason'' = Some (JStr ''tool_calls'')"
    by (simp add: client_defs tool_call_body_def)
  have tcs: "Some (JArr [tool_call_json]) =
               opt_prop (opt_prop (first_choice tool_call_body) ''message'') ''tool_calls''"
    by (simp add: client_defs tool_call_body_def)
  have ti: "opt_index (Some (JArr [tool_call_json])) 0 = Some tool_call_json"
    by (simp add: opt_index_def)
  have tr: "truthy (Some tool_call_json)"
    by (simp add: tool_call_json_def)
  have pq: "parse_search_query search_env tool_call_json = Some (Some (JStr ''weather''))"
    by (simp add: client_defs search_env_def tool_call_json_def)
  have sw: "snd (searchWeb search_env (Some (JStr ''weather''))) =
              Inl (JsError ''Tavily API key is not configured.'')"
    by (simp add: searchWeb_def search_env_def)
  have fs: "JSON_stringify search_env
         (JObj [(''error'', JStr ''Web search unavailable. Answer from your training knowledge.'')])
       = fallback_text"
    by (simp add: search_env_def)
  have m2: "?msgs2 = example_msgs @
           [AssistantToolCalls (Some (JArr [tool_call_json])),
            ToolResult
              (JSON_stringify search_env
                 (JObj [(''error'', JStr ''Web search unavailable. Answer from your training knowledge.'')]))
              (get_prop tool_call_json ''id'')]"
    by (simp add: fs tool_call_json_def)
  note w = search_failure_fallback [OF key k1 k2 m f okf b fr tcs ti tr pq sw m2,
      where cb = True and retry = "answer_response ''Answer''"
        and body = "JObj [(''choices'',
          JArr [JObj [(''finish_reason'', JStr ''stop''),
                      (''message'', JObj [(''role'', JStr ''assistant''),
                                          (''content'', JStr ''Answer'')])]])]"
        and c = "''Answer''"]
  have second: "fetch_completion search_env (doFetch ?msgs2 ''gsk_live'' False)
                  = Resolved (answer_response ''Answer'')
      \<and> ok (answer_response ''Answer'')
      \<and> json_body (answer_response ''Answer'') = Inr (JObj [(''choices'',
          JArr [JObj [(''finish_reason'', JStr ''stop''),
                      (''message'', JObj [(''role'', JStr ''assistant''),
                                          (''content'', JStr ''Answer'')])]])])
      \<and> choice_content (first_choice (JObj [(''choices'',
          JArr [JObj [(''finish_reason'', JStr ''stop''),
                      (''message'', JObj [(''role'', JStr ''assistant''),
                                          (''content'', JStr ''Answer'')])]])])) = Some (JStr ''Answer'')
      \<and> trim ''Answer'' \<noteq> []"
    by (simp add: client_defs search_env_def answer_response_def)
  from w second have res: "snd (sendChatMessage search_env True [ChatMsg user ''hi'']) = Inr ''Answer''"
    by blast
  from w have "fst (sendChatMessage search_env True [ChatMsg user ''hi'']) =
      notify True thinking @ [CompletionCall (doFetch example_msgs ''gsk_live'' True)] @
      notify True searching @ fst (searchWeb search_env (Some (JStr ''weather''))) @
      notify True thinking @ [CompletionCall (doFetch ?msgs2 ''gsk_live'' False)]"
    by blast
  then have evs: "fst (sendChatMessage search_env True [ChatMsg user ''hi'']) =
       [StatusChange thinking,
        CompletionCall (doFetch example_msgs ''gsk_live'' True),
        StatusChange searching,
        StatusChange thinking,
        CompletionCall (doFetch ?msgs2 ''gsk_live'' False)]"
    by (simp add: notify_def searchWeb_def search_env_def)
  from sw fs evs res show ?thesis by simp
qed

section \<open>The persistence adapter\<close>

subsection \<open>Helper lemmas\<close>

lemma valid_Message_json: "isValidMessage (Message_json m)"
  by (simp add: isValidMessage_def Message_json_def is_object_def is_string_def)

lemma valid_Session_json: "isValidSession (Session_json s)"
  by (simp add: isValidSession_def Session_json_def is_object_def is_string_def is_array_def)

lemma filter_valid_messages: "filter isValidMessage (map Message_json ms) = map Message_json ms"
  by (induction ms) (simp_all add: valid_Message_json)

lemma filter_valid_sessions: "filter isValidSession (map Session_json ss) = map Session_json ss"
  by (induction ss) (simp_all add: valid_Session_json)

lemma keep_valid_Session_json: "keep_valid_messages (Session_json s) = Session_json s"
  by (simp add: keep_valid_messages_def Session_json_def filter_valid_messages)

lemma map_keep_valid: "map keep_valid_messages (map Session_json ss) = map Session_json ss"
  by (induction ss) (simp_all add: keep_valid_Session_json)

lemma role_name_inj: "role_name a = role_name b \<Longrightarrow> a = b"
  by (cases a; cases b) simp_all

lemma Message_json_inj: "Message_json a = Message_json b \<Longrightarrow> a = b"
  by (cases a; cases b)
     (auto simp: Message_json_def split: option.splits dest: role_name_inj)

lemma map_Message_json_inj: "map Message_json xs = map Message_json ys \<Longrightarrow> xs = ys"
proof (induction xs arbitrary: ys)
  case Nil
  then show ?case by simp
next
  case (Cons x xs)
  then show ?case by (cases ys) (auto dest: Message_json_inj)
qed

lemma Session_json_inj: "Session_json a = Session_json b \<Longrightarrow> a = b"
  by (cases a; cases b)
     (auto simp: Session_json_def split: option.splits dest: map_Message_json_inj)

lemma map_Session_json_inj: "map Session_json xs = map Session_json ys \<Longrightarrow> xs = ys"
proof (induction xs arbitrary: ys)
  case Nil
  then show ?case by simp
next
  case (Cons x xs)
  then show ?case by (cases ys) (auto dest: Session_json_inj)
qed

lemma find_user_json:
  "find (\<lambda>m. get_prop m ''role'' = Some (JStr ''user'')) (map Message_json ms) =
   map_option Message_json (find (\<lambda>m. role m = user) ms)"
proof (induction ms)
  case Nil
  show ?case by simp
next
  case (Cons m ms)
  have "(get_prop (Message_json m) ''role'' = Some (JStr ''user'')) = (role m = user)"
    by (cases "role m") (simp_all add: Message_json_def)
  with Cons show ?case by simp
qed

lemma legacy_session_typed:
  "legacy_session new_id (Message_json m) (map Message_json rest) =
   Session_json \<lparr>session_id = new_id,
      title = (case find (\<lambda>x. role x = user) (m # rest) of
                 None \<Rightarrow> ''Previous Chat'' | Some u \<Rightarrow> take 40 (content u)),
      messages = m # rest,
      createdAt = timestamp m,
      updatedAt = timestamp (last (m # rest)),
      starred = None\<rparr>"
proof -
  have f: "find (\<lambda>x. get_prop x ''role'' = Some (JStr ''user'')) (Message_json m # map Message_json rest)
           = map_option Message_json (find (\<lambda>x. role x = user) (m # rest))"
    using find_user_json [of "m # rest"] by simp
  have c: "\<And>u. get_prop (Message_json u) ''content'' = Some (JStr (content u))"
    by (simp add: Message_json_def)
  have ts: "\<And>u. get_prop (Message_json u) ''timestamp'' = Some (JStr (timestamp u))"
    by (simp add: Message_json_def)
  have l: "last (Message_json m # map Message_json rest) = Message_json (last (m # rest))"
    using last_map [of "m # rest" Message_json] by simp
  show ?thesis
    unfolding legacy_session_def f l
    by (cases "find (\<lambda>x. role x = user) (m # rest)")
       (simp_all add: Session_json_def c ts del: find.simps last.simps)
qed

subsection \<open>Saving, then loading\<close>

text \<open>
  C6, as the code has it. For every collection \<open>S\<close> of sessions of the declared shape
  that is not empty and has at most 50 sessions, and every storage whose quota the
  write does not exceed, \<open>loadSessions\<close> after \<open>saveSessions S\<close> returns \<open>S\<close> (as the
  JSON of its sessions, which determines \<open>S\<close>) and leaves the storage as the save left
  it. A write that exceeds the quota is swallowed by \<open>saveSessions\<close> and stores nothing.
\<close>

theorem save_load_roundtrip:
  assumes "S \<noteq> []" and "length S \<le> 50" and "\<not> quota_exceeded ls"
  shows "loadSessions new_id (saveSessions (map Session_json S) ls) =
           (map Session_json S, saveSessions (map Session_json S) ls)
   \<and> (map Session_json S = map Session_json S' \<longrightarrow> S = S')"
proof -
  have t: "take MAX_SESSIONS (map Session_json S) = map Session_json S"
    using assms(2) by (simp add: MAX_SESSIONS_def)
  have g: "getItem (saveSessions (map Session_json S) ls) SESSIONS_KEY =
             Some (JsonText (JArr (map Session_json S)))"
    using assms(3) by (simp add: saveSessions_def setItem_def getItem_def t)
  have "loadSessions new_id (saveSessions (map Session_json S) ls) =
           (map Session_json S, saveSessions (map Session_json S) ls)"
    using assms(1)
    by (simp add: loadSessions_def g filter_valid_sessions keep_valid_Session_json Let_def)
  then show ?thesis by (auto dest: map_Session_json_inj)
qed

theorem save_load_roundtrip_witness:
  "length [example_session, createEmptySession ''t0'' ''s0''] \<le> 50
   \<and> \<not> quota_exceeded (empty_storage False)
   \<and> fst (loadSessions ''s9''
          (saveSessions (map Session_json [example_session, createEmptySession ''t0'' ''s0''])
             (empty_storage False)))
       = [Session_json example_session, Session_json (createEmptySession ''t0'' ''s0'')]"
proof -
  have ne: "[example_session, createEmptySession ''t0'' ''s0''] \<noteq> []"
    and le: "length [example_session, createEmptySession ''t0'' ''s0''] \<le> 50"
    by simp_all
  have q: "\<not> quota_exceeded (empty_storage False)"
    by (simp add: empty_storage_def)
  from save_load_roundtrip [OF ne le q, of "''s9''"] le q show ?thesis by simp
qed

text \<open>
  C6 as stated fails when the write fails: on a storage whose quota is exceeded the
  save stores nothing, and the load that follows returns no session.
\<close>

theorem save_load_roundtrip_cex:
  "loadSessions ''s9'' (saveSessions (map Session_json [example_session]) (empty_storage True))
     = ([], empty_storage True)"
  by (simp add: loadSessions_def migrate_legacy_def saveSessions_def setItem_def getItem_def
      empty_storage_def)

subsection \<open>The migration of the legacy format\<close>

text \<open>
  C7, as the code has it. When nothing is stored under the current key and the legacy
  key holds an array of messages of the declared shape that is not empty,
  \<open>loadSessions\<close> returns exactly one session: its id is the fresh id, its title is the
  content of the first message of role \<open>user\<close> cut to 40 characters (\<open>Previous Chat\<close>
  when there is none), its messages are the legacy messages, \<open>createdAt\<close> is the
  timestamp of the first message and \<open>updatedAt\<close> that of the last. Afterwards the legacy
  key is gone, and the session is stored under the current key unless the write
  exceeds the quota.
\<close>

theorem legacy_migration:
  assumes "getItem ls SESSIONS_KEY = None"
    and "getItem ls LEGACY_KEY = Some (JsonText (JArr (map Message_json ms)))"
    and "ms \<noteq> []"
    and "migrated = Session_json \<lparr>session_id = new_id,
      title = (case find (\<lambda>m. role m = user) ms of
                 None \<Rightarrow> ''Previous Chat'' | Some u \<Rightarrow> take 40 (content u)),
      messages = ms,
      createdAt = timestamp (hd ms),
      updatedAt = timestamp (last ms),
      starred = None\<rparr>"
  shows "fst (loadSessions new_id ls) = [migrated]
   \<and> getItem (snd (loadSessions new_id ls)) LEGACY_KEY = None
   \<and> (\<not> quota_exceeded ls \<longrightarrow>
        getItem (snd (loadSessions new_id ls)) SESSIONS_KEY = Some (JsonText (JArr [migrated])))"
proof -
  obtain m rest where ms: "ms = m # rest"
    using assms(3) by (cases ms) auto
  have mig: "legacy_session new_id (Message_json m) (map Message_json rest) = migrated"
    by (simp only: legacy_session_typed assms(4) ms list.sel)
  have l: "loadSessions new_id ls =
             ([migrated], saveSessions [migrated] (removeItem LEGACY_KEY ls))"
    using assms(1,2)
    by (simp add: loadSessions_def migrate_legacy_def ms filter_valid_messages
        valid_Message_json mig Let_def)
  have k: "SESSIONS_KEY \<noteq> LEGACY_KEY"
    by (simp add: SESSIONS_KEY_def LEGACY_KEY_def)
  show ?thesis
    using k
    by (auto simp: l saveSessions_def setItem_def removeItem_def getItem_def MAX_SESSIONS_def)
qed


theorem legacy_migration_witness:
  "getItem (legacy_storage legacy_messages False) SESSIONS_KEY = None
   \<and> fst (loadSessions ''s9'' (legacy_storage legacy_messages False)) =
       [Session_json \<lparr>session_id = ''s9'', title = ''Hello world'', messages = legacy_messages,
          createdAt = ''2024-01-01T10:00:00.000Z'', updatedAt = ''2024-01-01T10:02:00.000Z'',
          starred = None\<rparr>]
   \<and> getItem (snd (loadSessions ''s9'' (legacy_storage legacy_messages False))) LEGACY_KEY = None
   \<and> getItem (snd (loadSessions ''s9'' (legacy_storage legacy_messages False))) SESSIONS_KEY =
       Some (JsonText (JArr [Session_json \<lparr>session_id = ''s9'', title = ''Hello world'',
          messages = legacy_messages,
          createdAt = ''2024-01-01T10:00:00.000Z'', updatedAt = ''2024-01-01T10:02:00.000Z'',
          starred = None\<rparr>]))"
proof -
  let ?ls = "legacy_storage legacy_messages False"
  have a: "getItem ?ls SESSIONS_KEY = None"
    by (simp add: getItem_def legacy_storage_def SESSIONS_KEY_def LEGACY_KEY_def)
  have b: "getItem ?ls LEGACY_KEY = Some (JsonText (JArr (map Message_json legacy_messages)))"
    by (simp add: getItem_def legacy_storage_def)
  have c: "legacy_messages \<noteq> []"
    by (simp add: legacy_messages_def)
  have d: "Session_json \<lparr>session_id = ''s9'', title = ''Hello world'', messages = legacy_messages,
          createdAt = ''2024-01-01T10:00:00.000Z'', updatedAt = ''2024-01-01T10:02:00.000Z'',
          starred = None\<rparr> =
        Session_json \<lparr>session_id = ''s9'',
          title = (case find (\<lambda>m. role m = user) legacy_messages of
                     None \<Rightarrow> ''Previous Chat'' | Some u \<Rightarrow> take 40 (content u)),
          messages = legacy_messages,
          createdAt = timestamp (hd legacy_messages),
          updatedAt = timestamp (last legacy_messages),
          starred = None\<rparr>"
    by (simp add: legacy_messages_def)
  have q: "\<not> quota_exceeded ?ls"
    by (simp add: legacy_storage_def)
  from legacy_migration [OF a b c d] a q show ?thesis by simp
qed

text \<open>
  C7 as stated fails in two places. A legacy key that holds the empty array gives no
  session and stays where it is; and on a storage whose quota is exceeded the session
  is returned and the legacy key removed, but nothing is stored under the current key.
\<close>

theorem legacy_migration_cex:
  "loadSessions ''s9'' (legacy_storage [] False) = ([], legacy_storage [] False)
   \<and> getItem (legacy_storage [] False) LEGACY_KEY = Some (JsonText (JArr (map Message_json [])))
   \<and> length (fst (loadSessions ''s9'' (legacy_storage legacy_messages True))) = 1
   \<and> getItem (snd (loadSessions ''s9'' (legacy_storage legacy_messages True))) LEGACY_KEY = None
   \<and> getItem (snd (loadSessions ''s9'' (legacy_storage legacy_messages True))) SESSIONS_KEY = None"
  by (simp add: loadSessions_def migrate_legacy_def saveSessions_def setItem_def getItem_def
      removeItem_def legacy_storage_def legacy_messages_def SESSIONS_KEY_def LEGACY_KEY_def
      Message_json_def isValidMessage_def is_object_def is_string_def Let_def)

end
